theory Spec2Isabelle
  imports Complex_Main "HOL-Library.Monad_Syntax"
begin

section \<open>Conventions of the embedding\<close>

text \<open>
  The two modules of pyQSC modelled here, \<^verbatim>\<open>qsc/plot.py\<close> and \<^verbatim>\<open>qsc/to_vmec.py\<close>, compute
  with double-precision numbers. The embedding is over the reals: a Python or numpy float is a
  \<^typ>\<open>real\<close>, \<^verbatim>\<open>np.cos\<close> and \<^verbatim>\<open>np.sin\<close> are \<^const>\<open>cos\<close> and \<^const>\<open>sin\<close>, \<^verbatim>\<open>np.pi\<close> is
  \<^const>\<open>pi\<close>. Python integers are \<^typ>\<open>int\<close>. A function that can raise returns an
  \<^typ>\<open>'a option\<close>, and \<^const>\<open>None\<close> stands for the raised exception.
\<close>

subsection \<open>Numeric primitives\<close>

text \<open>Division of a float by a Python integer; \<^verbatim>\<open>x / 0\<close> raises ZeroDivisionError.\<close>

definition py_div :: "real \<Rightarrow> int \<Rightarrow> real option" where
  "py_div x k = (if k = 0 then None else Some (x / real_of_int k))"

text \<open>\<^verbatim>\<open>np.mod(x, y)\<close> on floats: the remainder of the floored division.\<close>

definition np_mod :: "real \<Rightarrow> real \<Rightarrow> real" where
  "np_mod x y = x - real_of_int \<lfloor>x / y\<rfloor> * y"

text \<open>\<^verbatim>\<open>int(x)\<close> of a float truncates towards zero.\<close>

definition py_int :: "real \<Rightarrow> int" where
  "py_int x = (if 0 \<le> x then \<lfloor>x\<rfloor> else \<lceil>x\<rceil>)"

subsection \<open>The configuration object\<close>

text \<open>
  A spectrum attribute holds either a two-dimensional array (a list of rows) or, in the
  stellarator-symmetric case, the Python integer \<^verbatim>\<open>0\<close>.
\<close>

datatype spectrum = Scalar int | Arr "real list list"

text \<open>
  The attributes of \<^verbatim>\<open>self\<close> that the two modules read or write. The frame arrays have
  shape \<^verbatim>\<open>(nphi, 3)\<close>: one row of cylindrical components \<open>(R, phi, Z)\<close> per grid point, so
  that \<^verbatim>\<open>a[:,0]\<close> is \<open>map fst a\<close> and \<^verbatim>\<open>a[:,2]\<close> is \<open>map (snd \<circ> snd) a\<close>. The four spectrum
  attributes exist only once \<^verbatim>\<open>to_vmec\<close> has stored them.
\<close>

record qsc =
  nfp :: int
  nphi :: int
  rc :: "real list"
  zs :: "real list"
  phi :: "real list"
  iota :: real
  iotaN :: real
  order :: string
  lasym :: bool
  B0 :: real
  etabar :: real
  B2c :: real
  B2s :: real
  tangent_cylindrical :: "(real \<times> real \<times> real) list"
  normal_cylindrical :: "(real \<times> real \<times> real) list"
  binormal_cylindrical :: "(real \<times> real \<times> real) list"
  X1c :: "real list"
  X1s :: "real list"
  Y1c :: "real list"
  Y1s :: "real list"
  X20 :: "real list"
  X2c :: "real list"
  X2s :: "real list"
  Y20 :: "real list"
  Y2c :: "real list"
  Y2s :: "real list"
  Z20 :: "real list"
  Z2c :: "real list"
  Z2s :: "real list"
  B20 :: "real list"
  RBC :: "spectrum option"
  RBS :: "spectrum option"
  ZBC :: "spectrum option"
  ZBS :: "spectrum option"

section \<open>plot.py: the surface reconstructor\<close>

text \<open>
  \<^verbatim>\<open>scipy.interpolate.UnivariateSpline(x, y, k=3, s=0)\<close> is a library function outside the
  repository. The embedding takes it as a parameter \<open>spline\<close>: from the grid and the samples to
  the interpolating function. What the library does on samples it rejects is not modelled.
\<close>

type_synonym interpolator = "real list \<Rightarrow> real list \<Rightarrow> real \<Rightarrow> real"

text \<open>
  The body shared by the twenty interpolant closures:
  \<^verbatim>\<open>sp = spline(self.phi, samples, k=3, s=0); return sp(np.mod(phi, 2*np.pi/self.nfp))\<close>.
\<close>

definition eval_spline :: "interpolator \<Rightarrow> qsc \<Rightarrow> real list \<Rightarrow> real \<Rightarrow> real option" where
  "eval_spline spline self samples ph = do {
     let sp = spline (phi self) samples;
     period \<leftarrow> py_div (2 * pi) (nfp self);
     Some (sp (np_mod ph period))
   }"

definition Raxisf :: "qsc \<Rightarrow> real \<Rightarrow> real" where
  "Raxisf self ph =
     sum_list (map (\<lambda>i. rc self ! i * cos (real i * real_of_int (nfp self) * ph))
                   [0..<length (rc self)])"

definition Zaxisf :: "qsc \<Rightarrow> real \<Rightarrow> real" where
  "Zaxisf self ph =
     sum_list (map (\<lambda>i. zs self ! i * sin (real i * real_of_int (nfp self) * ph))
                   [0..<length (zs self)])"

definition tangentR :: "interpolator \<Rightarrow> qsc \<Rightarrow> real \<Rightarrow> real option" where
  "tangentR spline self ph = eval_spline spline self (map fst (tangent_cylindrical self)) ph"

definition tangentZ :: "interpolator \<Rightarrow> qsc \<Rightarrow> real \<Rightarrow> real option" where
  "tangentZ spline self ph =
     eval_spline spline self (map (snd \<circ> snd) (tangent_cylindrical self)) ph"

definition normalR :: "interpolator \<Rightarrow> qsc \<Rightarrow> real \<Rightarrow> real option" where
  "normalR spline self ph = eval_spline spline self (map fst (normal_cylindrical self)) ph"

definition normalZ :: "interpolator \<Rightarrow> qsc \<Rightarrow> real \<Rightarrow> real option" where
  "normalZ spline self ph =
     eval_spline spline self (map (snd \<circ> snd) (normal_cylindrical self)) ph"

definition binormalR :: "interpolator \<Rightarrow> qsc \<Rightarrow> real \<Rightarrow> real option" where
  "binormalR spline self ph = eval_spline spline self (map fst (binormal_cylindrical self)) ph"

definition binormalZ :: "interpolator \<Rightarrow> qsc \<Rightarrow> real \<Rightarrow> real option" where
  "binormalZ spline self ph =
     eval_spline spline self (map (snd \<circ> snd) (binormal_cylindrical self)) ph"

definition X1cF :: "interpolator \<Rightarrow> qsc \<Rightarrow> real \<Rightarrow> real option" where
  "X1cF spline self ph = eval_spline spline self (X1c self) ph"

definition X1sF :: "interpolator \<Rightarrow> qsc \<Rightarrow> real \<Rightarrow> real option" where
  "X1sF spline self ph = eval_spline spline self (X1s self) ph"

definition Y1cF :: "interpolator \<Rightarrow> qsc \<Rightarrow> real \<Rightarrow> real option" where
  "Y1cF spline self ph = eval_spline spline self (Y1c self) ph"

definition Y1sF :: "interpolator \<Rightarrow> qsc \<Rightarrow> real \<Rightarrow> real option" where
  "Y1sF spline self ph = eval_spline spline self (Y1s self) ph"

definition X20F :: "interpolator \<Rightarrow> qsc \<Rightarrow> real \<Rightarrow> real option" where
  "X20F spline self ph = eval_spline spline self (X20 self) ph"

definition X2cF :: "interpolator \<Rightarrow> qsc \<Rightarrow> real \<Rightarrow> real option" where
  "X2cF spline self ph = eval_spline spline self (X2c self) ph"

definition X2sF :: "interpolator \<Rightarrow> qsc \<Rightarrow> real \<Rightarrow> real option" where
  "X2sF spline self ph = eval_spline spline self (X2s self) ph"

definition Y20F :: "interpolator \<Rightarrow> qsc \<Rightarrow> real \<Rightarrow> real option" where
  "Y20F spline self ph = eval_spline spline self (Y20 self) ph"

definition Y2cF :: "interpolator \<Rightarrow> qsc \<Rightarrow> real \<Rightarrow> real option" where
  "Y2cF spline self ph = eval_spline spline self (Y2c self) ph"

definition Y2sF :: "interpolator \<Rightarrow> qsc \<Rightarrow> real \<Rightarrow> real option" where
  "Y2sF spline self ph = eval_spline spline self (Y2s self) ph"

definition Z20F :: "interpolator \<Rightarrow> qsc \<Rightarrow> real \<Rightarrow> real option" where
  "Z20F spline self ph = eval_spline spline self (Z20 self) ph"

definition Z2cF :: "interpolator \<Rightarrow> qsc \<Rightarrow> real \<Rightarrow> real option" where
  "Z2cF spline self ph = eval_spline spline self (Z2c self) ph"

definition Z2sF :: "interpolator \<Rightarrow> qsc \<Rightarrow> real \<Rightarrow> real option" where
  "Z2sF spline self ph = eval_spline spline self (Z2s self) ph"

definition B20F :: "interpolator \<Rightarrow> qsc \<Rightarrow> real \<Rightarrow> real option" where
  "B20F spline self ph = eval_spline spline self (B20 self) ph"

text \<open>The transformation from a near-axis position vector to cylindrical coordinates.\<close>

definition rSurf :: "interpolator \<Rightarrow> qsc \<Rightarrow> real \<Rightarrow> real \<Rightarrow> real \<Rightarrow> real option" where
  "rSurf spline self r ph theta = do {
     let thetaN = theta - (iota self - iotaN self) * ph;
     let r0 = Raxisf self ph;
     x1c \<leftarrow> X1cF spline self ph;
     x1s \<leftarrow> X1sF spline self ph;
     nR \<leftarrow> normalR spline self ph;
     y1c \<leftarrow> Y1cF spline self ph;
     y1s \<leftarrow> Y1sF spline self ph;
     bR \<leftarrow> binormalR spline self ph;
     let r1 = (x1c * cos thetaN + x1s * sin thetaN) * nR
            + (y1c * cos thetaN + y1s * sin thetaN) * bR;
     r2 \<leftarrow> (if order self \<noteq> ''r1'' then do {
              x20 \<leftarrow> X20F spline self ph;
              x2c \<leftarrow> X2cF spline self ph;
              x2s \<leftarrow> X2sF spline self ph;
              nR2 \<leftarrow> normalR spline self ph;
              y20 \<leftarrow> Y20F spline self ph;
              y2c \<leftarrow> Y2cF spline self ph;
              y2s \<leftarrow> Y2sF spline self ph;
              bR2 \<leftarrow> binormalR spline self ph;
              z20 \<leftarrow> Z20F spline self ph;
              z2c \<leftarrow> Z2cF spline self ph;
              z2s \<leftarrow> Z2sF spline self ph;
              tR \<leftarrow> tangentR spline self ph;
              Some ((x20 + x2c * cos (2 * thetaN) + x2s * sin (2 * thetaN)) * nR2
                  + (y20 + y2c * cos (2 * thetaN) + y2s * sin (2 * thetaN)) * bR2
                  + (z20 + z2c * cos (2 * thetaN) + z2s * sin (2 * thetaN)) * tR)
            } else Some 0);
     Some (r0 + r * r1 + r ^ 2 * r2)
   }"

definition zSurf :: "interpolator \<Rightarrow> qsc \<Rightarrow> real \<Rightarrow> real \<Rightarrow> real \<Rightarrow> real option" where
  "zSurf spline self r ph theta = do {
     let thetaN = theta - (iota self - iotaN self) * ph;
     let z0 = Zaxisf self ph;
     x1c \<leftarrow> X1cF spline self ph;
     x1s \<leftarrow> X1sF spline self ph;
     nZ \<leftarrow> normalZ spline self ph;
     y1c \<leftarrow> Y1cF spline self ph;
     y1s \<leftarrow> Y1sF spline self ph;
     bZ \<leftarrow> binormalZ spline self ph;
     let z1 = (x1c * cos thetaN + x1s * sin thetaN) * nZ
            + (y1c * cos thetaN + y1s * sin thetaN) * bZ;
     z2 \<leftarrow> (if order self \<noteq> ''r1'' then do {
              x20 \<leftarrow> X20F spline self ph;
              x2c \<leftarrow> X2cF spline self ph;
              x2s \<leftarrow> X2sF spline self ph;
              nZ2 \<leftarrow> normalZ spline self ph;
              y20 \<leftarrow> Y20F spline self ph;
              y2c \<leftarrow> Y2cF spline self ph;
              y2s \<leftarrow> Y2sF spline self ph;
              bZ2 \<leftarrow> binormalZ spline self ph;
              z20 \<leftarrow> Z20F spline self ph;
              z2c \<leftarrow> Z2cF spline self ph;
              z2s \<leftarrow> Z2sF spline self ph;
              tZ \<leftarrow> tangentZ spline self ph;
              Some ((x20 + x2c * cos (2 * thetaN) + x2s * sin (2 * thetaN)) * nZ2
                  + (y20 + y2c * cos (2 * thetaN) + y2s * sin (2 * thetaN)) * bZ2
                  + (z20 + z2c * cos (2 * thetaN) + z2s * sin (2 * thetaN)) * tZ)
            } else Some 0);
     Some (z0 + r * z1 + r ^ 2 * z2)
   }"

text \<open>The field strength on the surface, as the 3D plot colours it.\<close>

definition Bf :: "interpolator \<Rightarrow> qsc \<Rightarrow> real \<Rightarrow> real \<Rightarrow> real \<Rightarrow> real option" where
  "Bf spline self r ph theta = do {
     let thetaN = theta - (iota self - iotaN self) * ph;
     if order self = ''r1'' then
       Some (B0 self * (1 + r * etabar self * cos thetaN))
     else do {
       b20 \<leftarrow> B20F spline self ph;
       Some (B0 self * (1 + r * etabar self * cos thetaN)
             + r * r * (b20 + B2c self * cos thetaN + B2s self * sin thetaN))
     }
   }"

section \<open>to_vmec.py: the mode decomposer\<close>

subsection \<open>Arrays\<close>

text \<open>
  A two-dimensional numpy array is a list of rows of equal length. A Python index may be
  negative, counting from the end; outside \<open>[-len, len)\<close> the access raises IndexError.
\<close>

type_synonym array2 = "real list list"

definition index :: "nat \<Rightarrow> int \<Rightarrow> nat option" where
  "index len i =
     (let j = (if i < 0 then int len + i else i)
      in if 0 \<le> j \<and> j < int len then Some (nat j) else None)"

text \<open>\<^verbatim>\<open>a[i, j]\<close> read and \<^verbatim>\<open>a[i, j] = v\<close>.\<close>

definition get2 :: "array2 \<Rightarrow> int \<Rightarrow> int \<Rightarrow> real option" where
  "get2 a i j = do {
     i' \<leftarrow> index (length a) i;
     j' \<leftarrow> index (length (a ! i')) j;
     Some (a ! i' ! j')
   }"

definition set2 :: "array2 \<Rightarrow> int \<Rightarrow> int \<Rightarrow> real \<Rightarrow> array2 option" where
  "set2 a i j v = do {
     i' \<leftarrow> index (length a) i;
     j' \<leftarrow> index (length (a ! i')) j;
     Some (a[i' := (a ! i')[j' := v]])
   }"

text \<open>\<^verbatim>\<open>np.array(a).shape[1]\<close>: an array without rows has no second dimension.\<close>

definition shape1 :: "array2 \<Rightarrow> nat option" where
  "shape1 a = (case a of [] \<Rightarrow> None | row # _ \<Rightarrow> Some (length row))"

text \<open>\<^verbatim>\<open>np.zeros((rows, cols))\<close>: a negative dimension raises ValueError.\<close>

definition zeros :: "int \<Rightarrow> int \<Rightarrow> array2 option" where
  "zeros rows cols =
     (if rows < 0 \<or> cols < 0 then None
      else Some (replicate (nat rows) (replicate (nat cols) 0)))"

text \<open>\<^verbatim>\<open>np.sum(a)\<close>: the sum of all entries.\<close>

definition np_sum :: "array2 \<Rightarrow> real" where
  "np_sum a = sum_list (map sum_list a)"

text \<open>
  \<^verbatim>\<open>np.linspace(start, stop, num, endpoint=False)\<close>: \<open>num\<close> points \<open>k * step + start\<close> with
  \<open>step = (stop - start) / num\<close>; a negative \<open>num\<close> raises ValueError.
\<close>

definition linspace :: "real \<Rightarrow> real \<Rightarrow> int \<Rightarrow> real list option" where
  "linspace start stop num =
     (if num < 0 then None
      else Some (map (\<lambda>k. real k * ((stop - start) / real_of_int num) + start) [0..<nat num]))"

text \<open>
  A \<^verbatim>\<open>for\<close> loop over a list of indices whose body may raise: the state is threaded through
  the iterations, and the first exception ends the loop.
\<close>

fun for_loop :: "'i list \<Rightarrow> ('i \<Rightarrow> 's \<Rightarrow> 's option) \<Rightarrow> 's \<Rightarrow> 's option" where
  "for_loop [] body s = Some s"
| "for_loop (i # xs) body s = do { s' \<leftarrow> body i s; for_loop xs body s' }"

subsection \<open>to_Fourier\<close>

text \<open>
  The parameters \<open>nfp\<close> and \<open>lasym\<close> and the local arrays \<open>RBC\<close>, \<open>RBS\<close>, \<open>ZBC\<close>, \<open>ZBS\<close> of
  the source have the names of attributes of the configuration; here they carry a prime.
\<close>

text \<open>
  Lines 43 to 46: the scale of one term, halved at the poloidal and at the toroidal
  Nyquist mode. \<^verbatim>\<open>ntheta/2\<close> and \<^verbatim>\<open>nphi_conversion/2\<close> are true divisions.
\<close>

definition factor2 :: "real \<Rightarrow> int \<Rightarrow> nat \<Rightarrow> int \<Rightarrow> int \<Rightarrow> real" where
  "factor2 factor ntheta nphi_conversion m n =
     (let f2 = factor;
          f2 = (if ntheta mod 2 = 0 \<and> real_of_int m = real_of_int ntheta / 2
                then f2 / 2 else f2);
          f2 = (if int nphi_conversion mod 2 = 0
                   \<and> real_of_int \<bar>n\<bar> = real nphi_conversion / 2
                then f2 / 2 else f2)
      in f2)"

text \<open>
  Lines 40 to 50: the body of the innermost loop, for one grid point \<open>(j_theta, j_phi)\<close> and
  one mode \<open>(m, n)\<close>. \<open>theta\<close> has \<open>ntheta\<close> entries and \<open>phi_conversion\<close> has
  \<open>nphi_conversion\<close> entries, and the loops keep \<open>j_theta\<close> and \<open>j_phi\<close> below these.
\<close>

definition to_Fourier_body ::
  "array2 \<Rightarrow> array2 \<Rightarrow> int \<Rightarrow> int \<Rightarrow> nat \<Rightarrow> real list \<Rightarrow> real list \<Rightarrow> real \<Rightarrow> int \<Rightarrow>
   nat \<Rightarrow> nat \<Rightarrow> int \<Rightarrow> int \<Rightarrow>
   array2 \<times> array2 \<times> array2 \<times> array2 \<Rightarrow> (array2 \<times> array2 \<times> array2 \<times> array2) option" where
  "to_Fourier_body R_2D Z_2D nfp' ntheta nphi_conversion theta phi_conversion factor ntor
                   j_phi j_theta m n =
     (\<lambda>(RBC', RBS', ZBC', ZBS'). do {
        let angle = real_of_int m * theta ! j_theta
                    - real_of_int n * real_of_int nfp' * phi_conversion ! j_phi;
        let sinangle = sin angle;
        let cosangle = cos angle;
        let f2 = factor2 factor ntheta nphi_conversion m n;
        rbc \<leftarrow> get2 RBC' (n + ntor) m;
        x \<leftarrow> get2 R_2D (int j_theta) (int j_phi);
        RBC' \<leftarrow> set2 RBC' (n + ntor) m (rbc + x * cosangle * f2);
        rbs \<leftarrow> get2 RBS' (n + ntor) m;
        x \<leftarrow> get2 R_2D (int j_theta) (int j_phi);
        RBS' \<leftarrow> set2 RBS' (n + ntor) m (rbs + x * sinangle * f2);
        zbc \<leftarrow> get2 ZBC' (n + ntor) m;
        y \<leftarrow> get2 Z_2D (int j_theta) (int j_phi);
        ZBC' \<leftarrow> set2 ZBC' (n + ntor) m (zbc + y * cosangle * f2);
        zbs \<leftarrow> get2 ZBS' (n + ntor) m;
        y \<leftarrow> get2 Z_2D (int j_theta) (int j_phi);
        ZBS' \<leftarrow> set2 ZBS' (n + ntor) m (zbs + y * sinangle * f2);
        Some (RBC', RBS', ZBC', ZBS')
      })"

text \<open>
  Lines 34 to 50: the four nested loops. \<^verbatim>\<open>range(a, b)\<close> over integers is \<open>[a..b - 1]\<close>.
\<close>

definition to_Fourier_loops ::
  "array2 \<Rightarrow> array2 \<Rightarrow> int \<Rightarrow> int \<Rightarrow> nat \<Rightarrow> real list \<Rightarrow> real list \<Rightarrow> real \<Rightarrow> int \<Rightarrow> int \<Rightarrow>
   array2 \<times> array2 \<times> array2 \<times> array2 \<Rightarrow> (array2 \<times> array2 \<times> array2 \<times> array2) option" where
  "to_Fourier_loops R_2D Z_2D nfp' ntheta nphi_conversion theta phi_conversion factor mpol ntor =
     for_loop [0..<nphi_conversion] (\<lambda>j_phi.
       for_loop [0..<nat ntheta] (\<lambda>j_theta.
         for_loop [0..mpol + 1 - 1] (\<lambda>m.
           let nmin = (if m = 0 then 1 else - ntor) in
           for_loop [nmin..ntor + 1 - 1] (\<lambda>n.
             to_Fourier_body R_2D Z_2D nfp' ntheta nphi_conversion theta phi_conversion
                             factor ntor j_phi j_theta m n))))"

text \<open>
  The whole function. The divisor of lines 51 and 52 is the one of line 33, which has
  raised already if it is zero.
\<close>

definition to_Fourier ::
  "array2 \<Rightarrow> array2 \<Rightarrow> int \<Rightarrow> int \<Rightarrow> int \<Rightarrow> int \<Rightarrow> bool \<Rightarrow>
   (spectrum \<times> spectrum \<times> spectrum \<times> spectrum) option" where
  "to_Fourier R_2D Z_2D nfp' ntheta mpol ntor lasym' = do {
     nphi_conversion \<leftarrow> shape1 R_2D;
     theta \<leftarrow> linspace 0 (2 * pi) ntheta;
     period \<leftarrow> py_div (2 * pi) nfp';
     phi_conversion \<leftarrow> linspace 0 period (int nphi_conversion);
     RBC' \<leftarrow> zeros (2 * ntor + 1) (mpol + 1);
     RBS' \<leftarrow> zeros (2 * ntor + 1) (mpol + 1);
     ZBC' \<leftarrow> zeros (2 * ntor + 1) (mpol + 1);
     ZBS' \<leftarrow> zeros (2 * ntor + 1) (mpol + 1);
     factor \<leftarrow> py_div 2 (ntheta * int nphi_conversion);
     (RBC', RBS', ZBC', ZBS') \<leftarrow>
       to_Fourier_loops R_2D Z_2D nfp' ntheta nphi_conversion theta phi_conversion factor
                        mpol ntor (RBC', RBS', ZBC', ZBS');
     RBC' \<leftarrow> set2 RBC' ntor 0 (np_sum R_2D / real_of_int (ntheta * int nphi_conversion));
     ZBC' \<leftarrow> set2 ZBC' ntor 0 (np_sum Z_2D / real_of_int (ntheta * int nphi_conversion));
     if \<not> lasym' then Some (Arr RBC', Scalar 0, Scalar 0, Arr ZBS')
     else Some (Arr RBC', Arr RBS', Arr ZBC', Arr ZBS')
   }"

subsection \<open>to_vmec\<close>

text \<open>
  A value of the \<^verbatim>\<open>params\<close> dictionary: a number or a list of numbers. \<^verbatim>\<open>int(v)\<close> of a list
  raises TypeError.
\<close>

datatype param = PNum real | PList "real list"

definition int_of_param :: "param \<Rightarrow> int option" where
  "int_of_param v = (case v of PNum x \<Rightarrow> Some (py_int x) | PList _ \<Rightarrow> None)"

text \<open>Lines 73 to 77: the poloidal mode count.\<close>

definition mpol_value :: "(string \<rightharpoonup> param) \<Rightarrow> int \<Rightarrow> int option" where
  "mpol_value params ntheta =
     (if ''mpol'' \<notin> dom params then
        (let mpol1d = 100 in Some \<lfloor>min (real_of_int ntheta / 2) mpol1d\<rfloor>)
      else do { v \<leftarrow> params ''mpol''; int_of_param v })"

text \<open>Lines 78 to 83: the toroidal mode count.\<close>

definition ntor_value :: "qsc \<Rightarrow> (string \<rightharpoonup> param) \<Rightarrow> int option" where
  "ntor_value self params =
     (if ''ntor'' \<notin> dom params then
        (let ntord = 100 in Some (py_int (min (real_of_int (nphi self) / 2 + 1) ntord)))
      else do { v \<leftarrow> params ''ntor''; int_of_param v })"

text \<open>Lines 84 to 95: the defaults of the run-time parameters.\<close>

definition set_default :: "string \<Rightarrow> param \<Rightarrow> (string \<rightharpoonup> param) \<Rightarrow> (string \<rightharpoonup> param)" where
  "set_default k v params = (if k \<notin> dom params then params(k \<mapsto> v) else params)"

definition with_defaults :: "(string \<rightharpoonup> param) \<Rightarrow> (string \<rightharpoonup> param)" where
  "with_defaults params =
     (set_default ''niter_array'' (PList [1000, 1000, 1500])
      (set_default ''ftol_array'' (PList [1 / 10 ^ 13, 1 / 10 ^ 12, 1 / 10 ^ 11])
      (set_default ''ns_array'' (PList [16, 49, 101])
      (set_default ''tcon0'' (PNum 2)
      (set_default ''nstep'' (PNum 200)
      (set_default ''delt'' (PNum (9 / 10)) params))))))"

text \<open>
  The output file. Of the namelist, the embedding keeps the run-time parameters, the grid
  parameters \<open>LASYM\<close>, \<open>NFP\<close>, \<open>MPOL\<close>, \<open>NTOR\<close> and the boundary records, as values rather than
  as formatted text. A boundary line holds the mode \<open>(n, m)\<close> and its two coefficients:
  \<^verbatim>\<open>RBC(n,m) = ..., ZBS(n,m) = ...\<close> or \<^verbatim>\<open>RBS(n,m) = ..., ZBC(n,m) = ...\<close>.
  The comment header, \<open>PHIEDGE\<close> and the pressure, current and axis parameters are computed
  from \<open>r\<close> and attributes of \<^verbatim>\<open>self\<close> alone and are left out. A run that raises returns
  \<^const>\<open>None\<close>; the part of the file written before is not kept.
\<close>

datatype boundary_line =
  Line_RBC_ZBS int int real real
| Line_RBS_ZBC int int real real

record vmec_input =
  DELT :: param
  NSTEP :: param
  TCON0 :: param
  NS_ARRAY :: param
  FTOL_ARRAY :: param
  NITER_ARRAY :: param
  LASYM :: bool
  NFP :: int
  MPOL :: int
  NTOR :: int
  boundary :: "boundary_line list"

text \<open>
  \<^verbatim>\<open>S[i, j]\<close> and \<^verbatim>\<open>S.transpose()\<close> on a returned spectrum: the integer \<^verbatim>\<open>0\<close> can neither be
  subscripted nor transposed.
\<close>

definition entry :: "spectrum \<Rightarrow> int \<Rightarrow> int \<Rightarrow> real option" where
  "entry S i j = (case S of Arr a \<Rightarrow> get2 a i j | Scalar _ \<Rightarrow> None)"

definition transpose_spectrum :: "spectrum \<Rightarrow> spectrum option" where
  "transpose_spectrum S = (case S of Arr a \<Rightarrow> Some (Arr (transpose a)) | Scalar _ \<Rightarrow> None)"

text \<open>Lines 157 to 162: the boundary records, in the order written.\<close>

definition boundary_lines ::
  "bool \<Rightarrow> int \<Rightarrow> int \<Rightarrow> spectrum \<Rightarrow> spectrum \<Rightarrow> spectrum \<Rightarrow> spectrum \<Rightarrow>
   boundary_line list option" where
  "boundary_lines lasym' mpol ntor RBC' RBS' ZBC' ZBS' =
     for_loop [0..mpol + 1 - 1] (\<lambda>m.
       for_loop [- ntor..ntor + 1 - 1] (\<lambda>n out. do {
         rbc \<leftarrow> entry RBC' (n + ntor) m;
         zbs \<leftarrow> entry ZBS' (n + ntor) m;
         if rbc \<noteq> 0 \<or> zbs \<noteq> 0 then do {
           let out = out @ [Line_RBC_ZBS n m rbc zbs];
           if lasym' then do {
             rbs \<leftarrow> entry RBS' (n + ntor) m;
             zbc \<leftarrow> entry ZBC' (n + ntor) m;
             Some (out @ [Line_RBS_ZBC n m rbs zbc])
           } else Some out
         } else Some out
       })) []"

text \<open>
  \<^verbatim>\<open>self.Frenet_to_cylindrical(r, ntheta)\<close> lives in another module of the repository; it
  is the parameter \<open>Frenet_to_cylindrical\<close>. The result is the file written and the
  configuration with the four spectra stored.
\<close>

definition to_vmec ::
  "(qsc \<Rightarrow> real \<Rightarrow> int \<Rightarrow> (array2 \<times> array2 \<times> array2) option) \<Rightarrow>
   qsc \<Rightarrow> real \<Rightarrow> (string \<rightharpoonup> param) \<Rightarrow> int \<Rightarrow> int \<Rightarrow> (vmec_input \<times> qsc) option" where
  "to_vmec Frenet_to_cylindrical self r params ntheta ntorMax = do {
     mpol \<leftarrow> mpol_value params ntheta;
     ntor \<leftarrow> ntor_value self params;
     let params = with_defaults params;
     (R_2D, Z_2D, phi0_2D) \<leftarrow> Frenet_to_cylindrical self r ntheta;
     (RBC', RBS', ZBC', ZBS') \<leftarrow> to_Fourier R_2D Z_2D (nfp self) ntheta mpol ntor (lasym self);
     delt \<leftarrow> params ''delt'';
     nstep \<leftarrow> params ''nstep'';
     tcon0 \<leftarrow> params ''tcon0'';
     ns_array \<leftarrow> params ''ns_array'';
     ftol_array \<leftarrow> params ''ftol_array'';
     niter_array \<leftarrow> params ''niter_array'';
     lines \<leftarrow> boundary_lines (lasym self) mpol ntor RBC' RBS' ZBC' ZBS';
     let file = \<lparr> DELT = delt, NSTEP = nstep, TCON0 = tcon0, NS_ARRAY = ns_array,
                  FTOL_ARRAY = ftol_array, NITER_ARRAY = niter_array,
                  LASYM = lasym self, NFP = nfp self, MPOL = mpol, NTOR = min ntor ntorMax,
                  boundary = lines \<rparr>;
     rbc_t \<leftarrow> transpose_spectrum RBC';
     zbs_t \<leftarrow> transpose_spectrum ZBS';
     let self = self\<lparr> RBC := Some rbc_t, ZBS := Some zbs_t \<rparr>;
     if lasym self then do {
       rbs_t \<leftarrow> transpose_spectrum RBS';
       zbc_t \<leftarrow> transpose_spectrum ZBC';
       Some (file, self\<lparr> RBS := Some rbs_t, ZBC := Some zbc_t \<rparr>)
     } else Some (file, self\<lparr> RBS := Some RBS', ZBC := Some ZBC' \<rparr>)
   }"

section \<open>Notions used in the statements and proofs\<close>

subsection \<open>The field strength as the specification words it\<close>

text \<open>
  The specification's \<open>evaluateFieldMagnitude\<close>: the first-order closed form, and for a
  higher-order configuration the added term
  \<open>r^2 * (B20(phi) + B2c*cos(2 thetaN) + B2s*sin(2 thetaN))\<close>. It is written from the
  specification, to be compared with \<^const>\<open>Bf\<close>.
\<close>

definition evaluateFieldMagnitude_spec ::
  "interpolator \<Rightarrow> qsc \<Rightarrow> real \<Rightarrow> real \<Rightarrow> real \<Rightarrow> real option" where
  "evaluateFieldMagnitude_spec spline self r ph theta = do {
     let thetaN = theta - (iota self - iotaN self) * ph;
     if order self = ''r1'' then
       Some (B0 self * (1 + r * etabar self * cos thetaN))
     else do {
       b20 \<leftarrow> B20F spline self ph;
       Some (B0 self * (1 + r * etabar self * cos thetaN)
             + r ^ 2 * (b20 + B2c self * cos (2 * thetaN) + B2s self * sin (2 * thetaN)))
     }
   }"

subsection \<open>Concrete configurations\<close>

text \<open>
  The cubic spline through samples that are all equal is the constant function with that
  value. \<open>flat_spline\<close> is this interpolant, for configurations whose sampled quantities are
  constant over the grid.
\<close>

definition flat_spline :: interpolator where
  "flat_spline xs ys x = (case ys of [] \<Rightarrow> 0 | y # _ \<Rightarrow> y)"

text \<open>
  A first-order configuration with a circular axis of radius 1, three field periods and
  four grid points per period. The frame is the one of the circle and does not rotate
  (\<open>iotaN = iota\<close>), and the surface is the torus \<open>R = 1 + r cos theta\<close>, \<open>Z = r sin theta\<close>.
\<close>

definition circular :: qsc where
  "circular = \<lparr>
     nfp = 3, nphi = 4, rc = [1], zs = [0],
     phi = [0, pi / 6, pi / 3, pi / 2],
     iota = 1 / 2, iotaN = 1 / 2, order = ''r1'', lasym = False,
     B0 = 1, etabar = 1, B2c = 0, B2s = 0,
     tangent_cylindrical = [(0, 1, 0), (0, 1, 0), (0, 1, 0), (0, 1, 0)],
     normal_cylindrical = [(1, 0, 0), (1, 0, 0), (1, 0, 0), (1, 0, 0)],
     binormal_cylindrical = [(0, 0, 1), (0, 0, 1), (0, 0, 1), (0, 0, 1)],
     X1c = [1, 1, 1, 1], X1s = [0, 0, 0, 0], Y1c = [0, 0, 0, 0], Y1s = [1, 1, 1, 1],
     X20 = [0, 0, 0, 0], X2c = [0, 0, 0, 0], X2s = [0, 0, 0, 0],
     Y20 = [0, 0, 0, 0], Y2c = [0, 0, 0, 0], Y2s = [0, 0, 0, 0],
     Z20 = [0, 0, 0, 0], Z2c = [0, 0, 0, 0], Z2s = [0, 0, 0, 0],
     B20 = [0, 0, 0, 0],
     RBC = None, RBS = None, ZBC = None, ZBS = None \<rparr>"

text \<open>The same data with a frame that turns once per field period: \<open>iotaN = iota + 1 * nfp\<close>.\<close>

definition helical :: qsc where
  "helical = circular\<lparr> iotaN := 7 / 2 \<rparr>"

text \<open>The same data with one field period and \<open>iota - iotaN = 1/2\<close>.\<close>

definition half_twist :: qsc where
  "half_twist = circular\<lparr> nfp := 1, iota := 1 / 2, iotaN := 0 \<rparr>"

text \<open>A second-order configuration with \<open>B2c = 1\<close> and no first-order field variation.\<close>

definition second_order :: qsc where
  "second_order = circular\<lparr> order := ''r2'', etabar := 0, B2c := 1 \<rparr>"

subsection \<open>Arrays and surface samples\<close>

text \<open>An array with \<open>rows\<close> rows of \<open>cols\<close> entries each.\<close>

definition has_shape :: "array2 \<Rightarrow> nat \<Rightarrow> nat \<Rightarrow> bool" where
  "has_shape a rows cols \<longleftrightarrow> length a = rows \<and> (\<forall>row \<in> set a. length row = cols)"

text \<open>
  A surface sample that covers the grid: at least \<open>ntheta\<close> rows, one per poloidal angle,
  each with \<open>nphi_conversion\<close> entries, one per toroidal angle. On such samples no read of
  the loops is out of range.
\<close>

definition sampled_on :: "array2 \<Rightarrow> int \<Rightarrow> nat \<Rightarrow> bool" where
  "sampled_on a ntheta nphi_conversion \<longleftrightarrow>
     ntheta \<le> int (length a) \<and> (\<forall>row \<in> set a. length row = nphi_conversion)"

text \<open>A sample of R and of Z on two poloidal by two toroidal points.\<close>

definition grid_R :: array2 where "grid_R = [[1, 2], [3, 4]]"

definition grid_Z :: array2 where "grid_Z = [[0, 1], [- 1, 0]]"

subsection \<open>The sums of the decomposition\<close>

text \<open>
  The angle of line 40 for given arrays \<open>theta\<close> and \<open>phi_conversion\<close>, and the same angle
  with the grid points of lines 27 and 28 written out: \<open>theta[j] = j * (2 pi / ntheta)\<close> and
  \<open>phi_conversion[j] = j * (2 pi / nfp / nphi_conversion)\<close>.
\<close>

definition term_angle :: "int \<Rightarrow> real list \<Rightarrow> real list \<Rightarrow> nat \<Rightarrow> nat \<Rightarrow> int \<Rightarrow> int \<Rightarrow> real" where
  "term_angle nfp' theta phi_conversion j_phi j_theta m n =
     real_of_int m * theta ! j_theta - real_of_int n * real_of_int nfp' * phi_conversion ! j_phi"

definition mode_angle :: "int \<Rightarrow> int \<Rightarrow> nat \<Rightarrow> nat \<Rightarrow> nat \<Rightarrow> int \<Rightarrow> int \<Rightarrow> real" where
  "mode_angle nfp' ntheta nphi_conversion j_phi j_theta m n =
     real_of_int m * (real j_theta * (2 * pi / real_of_int ntheta))
     - real_of_int n * real_of_int nfp'
       * (real j_phi * (2 * pi / real_of_int nfp' / real nphi_conversion))"

text \<open>
  The term that the loop body adds to a cosine (\<open>trig = cos\<close>) or sine (\<open>trig = sin\<close>)
  amplitude of the sample \<open>a\<close>, for one grid point and one mode.
\<close>

definition loop_term ::
  "(real \<Rightarrow> real) \<Rightarrow> array2 \<Rightarrow> int \<Rightarrow> int \<Rightarrow> nat \<Rightarrow> real list \<Rightarrow> real list \<Rightarrow> real \<Rightarrow>
   nat \<Rightarrow> nat \<Rightarrow> int \<Rightarrow> int \<Rightarrow> real" where
  "loop_term trig a nfp' ntheta nphi_conversion theta phi_conversion factor j_phi j_theta m n =
     a ! j_theta ! j_phi * trig (term_angle nfp' theta phi_conversion j_phi j_theta m n)
     * factor2 factor ntheta nphi_conversion m n"

text \<open>
  What the loops add up for the mode \<open>(m, n)\<close>: over every grid point, the sample times the
  cosine or sine of the angle times the scale \<^const>\<open>factor2\<close> of the term, whose base is
  \<open>2 / (ntheta * nphi_conversion)\<close>.
\<close>

definition fourier_sum ::
  "(real \<Rightarrow> real) \<Rightarrow> array2 \<Rightarrow> int \<Rightarrow> int \<Rightarrow> nat \<Rightarrow> int \<Rightarrow> int \<Rightarrow> real" where
  "fourier_sum trig a nfp' ntheta nphi_conversion m n =
     (\<Sum>j_phi<nphi_conversion. \<Sum>j_theta<nat ntheta.
        a ! j_theta ! j_phi
        * trig (mode_angle nfp' ntheta nphi_conversion j_phi j_theta m n)
        * factor2 (2 / real_of_int (ntheta * int nphi_conversion)) ntheta nphi_conversion m n)"

text \<open>
  The scale of a term as the specification words it: \<open>2 / (ntheta * nphi)\<close>, halved when
  \<open>ntheta\<close> is even and \<open>m = ntheta / 2\<close>, and halved when \<open>nphi\<close> is even and
  \<open>|n| = nphi / 2\<close>.
\<close>

definition nyquist_scale :: "int \<Rightarrow> nat \<Rightarrow> int \<Rightarrow> int \<Rightarrow> real" where
  "nyquist_scale ntheta nphi_conversion m n =
     2 / real_of_int (ntheta * int nphi_conversion)
     * (if even ntheta \<and> 2 * m = ntheta then 1 / 2 else 1)
     * (if even nphi_conversion \<and> 2 * \<bar>n\<bar> = int nphi_conversion then 1 / 2 else 1)"

text \<open>
  A loop step \<open>step\<close> on the four arrays accumulates \<open>dA\<close>, \<open>dB\<close>, \<open>dC\<close>, \<open>dD\<close> at position
  \<open>(i, j)\<close>: on arrays of the given shape it returns arrays of that shape whose entries at
  \<open>(i, j)\<close> have grown by these amounts.
\<close>

definition accumulates ::
  "nat \<Rightarrow> nat \<Rightarrow> nat \<Rightarrow> nat \<Rightarrow>
   (array2 \<times> array2 \<times> array2 \<times> array2 \<Rightarrow> (array2 \<times> array2 \<times> array2 \<times> array2) option) \<Rightarrow>
   real \<Rightarrow> real \<Rightarrow> real \<Rightarrow> real \<Rightarrow> bool" where
  "accumulates rows cols i j step dA dB dC dD \<longleftrightarrow>
     (\<forall>A B C D.
        has_shape A rows cols \<and> has_shape B rows cols \<and>
        has_shape C rows cols \<and> has_shape D rows cols \<longrightarrow>
        (\<exists>A1 B1 C1 D1.
           step (A, B, C, D) = Some (A1, B1, C1, D1) \<and>
           has_shape A1 rows cols \<and> has_shape B1 rows cols \<and>
           has_shape C1 rows cols \<and> has_shape D1 rows cols \<and>
           A1 ! i ! j = A ! i ! j + dA \<and> B1 ! i ! j = B ! i ! j + dB \<and>
           C1 ! i ! j = C ! i ! j + dC \<and> D1 ! i ! j = D ! i ! j + dD))"

subsection \<open>The boundary records of one mode\<close>

text \<open>
  The lines that one iteration of the loops of lines 157 to 162 appends for the mode
  \<open>(m, n)\<close>, and the lines of a whole loop, one list per index.
\<close>

definition mode_lines ::
  "bool \<Rightarrow> int \<Rightarrow> spectrum \<Rightarrow> spectrum \<Rightarrow> spectrum \<Rightarrow> spectrum \<Rightarrow> int \<Rightarrow> int \<Rightarrow>
   boundary_line list option" where
  "mode_lines lasym' ntor RBC' RBS' ZBC' ZBS' m n = do {
     rbc \<leftarrow> entry RBC' (n + ntor) m;
     zbs \<leftarrow> entry ZBS' (n + ntor) m;
     if rbc \<noteq> 0 \<or> zbs \<noteq> 0 then
       if lasym' then do {
         rbs \<leftarrow> entry RBS' (n + ntor) m;
         zbc \<leftarrow> entry ZBC' (n + ntor) m;
         Some [Line_RBC_ZBS n m rbc zbs, Line_RBS_ZBC n m rbs zbc]
       } else Some [Line_RBC_ZBS n m rbc zbs]
     else Some []
   }"

fun collect :: "('i \<Rightarrow> 'a list option) \<Rightarrow> 'i list \<Rightarrow> 'a list option" where
  "collect g [] = Some []"
| "collect g (x # xs) = do { l \<leftarrow> g x; ls \<leftarrow> collect g xs; Some (l @ ls) }"

subsection \<open>Runs of to_vmec\<close>

text \<open>
  The surface of \<^const>\<open>circular\<close> sampled at the poloidal angle \<open>theta = 0\<close> only, as
  \<open>Frenet_to_cylindrical\<close> returns it for \<open>ntheta = 1\<close>: one row with \<open>R = 1 + r\<close> and \<open>Z = 0\<close>
  at every toroidal grid point.
\<close>

definition outboard_points :: "qsc \<Rightarrow> real \<Rightarrow> int \<Rightarrow> (array2 \<times> array2 \<times> array2) option" where
  "outboard_points self r ntheta =
     Some ([replicate (length (phi self)) (1 + r)], [replicate (length (phi self)) 0],
           [phi self])"

text \<open>Mode counts supplied by the caller, and the same configuration without the symmetry.\<close>

definition lowest_modes :: "string \<rightharpoonup> param" where
  "lowest_modes = [''mpol'' \<mapsto> PNum 0, ''ntor'' \<mapsto> PNum 0]"

definition circular_asym :: qsc where
  "circular_asym = circular\<lparr> lasym := True \<rparr>"

section \<open>Properties of the surface reconstructor\<close>

lemma eval_spline_Some:
  "nfp self \<noteq> 0 \<Longrightarrow>
   eval_spline spline self ys ph =
     Some (spline (phi self) ys (np_mod ph (2 * pi / real_of_int (nfp self))))"
  by (simp add: eval_spline_def py_div_def)

lemmas interp_defs =
  tangentR_def tangentZ_def normalR_def normalZ_def binormalR_def binormalZ_def
  X1cF_def X1sF_def Y1cF_def Y1sF_def X20F_def X2cF_def X2sF_def Y20F_def Y2cF_def Y2sF_def
  Z20F_def Z2cF_def Z2sF_def B20F_def

lemma np_mod_add_period: "y \<noteq> 0 \<Longrightarrow> np_mod (x + y) y = np_mod x y"
proof -
  assume y: "y \<noteq> 0"
  have "(x + y) / y = x / y + 1" using y by (simp add: field_simps)
  then have "\<lfloor>(x + y) / y\<rfloor> = \<lfloor>x / y\<rfloor> + 1" by simp
  then show ?thesis by (simp add: np_mod_def algebra_simps)
qed

lemma cos_add_int_period: "cos (x + 2 * pi * real_of_int k) = cos x"
  by (simp add: cos_add)

lemma sin_add_int_period: "sin (x + 2 * pi * real_of_int k) = sin x"
  by (simp add: sin_add)

lemma Raxisf_periodic:
  assumes "nfp self \<noteq> 0"
  shows "Raxisf self (ph + 2 * pi / real_of_int (nfp self)) = Raxisf self ph"
proof -
  have "cos (real i * real_of_int (nfp self) * (ph + 2 * pi / real_of_int (nfp self)))
        = cos (real i * real_of_int (nfp self) * ph)" for i
  proof -
    have "real i * real_of_int (nfp self) * (ph + 2 * pi / real_of_int (nfp self))
          = real i * real_of_int (nfp self) * ph + 2 * pi * real_of_int (int i)"
      using assms by (simp add: field_simps)
    then show ?thesis by (simp only: cos_add_int_period)
  qed
  then show ?thesis by (simp add: Raxisf_def)
qed

lemma Zaxisf_periodic:
  assumes "nfp self \<noteq> 0"
  shows "Zaxisf self (ph + 2 * pi / real_of_int (nfp self)) = Zaxisf self ph"
proof -
  have "sin (real i * real_of_int (nfp self) * (ph + 2 * pi / real_of_int (nfp self)))
        = sin (real i * real_of_int (nfp self) * ph)" for i
  proof -
    have "real i * real_of_int (nfp self) * (ph + 2 * pi / real_of_int (nfp self))
          = real i * real_of_int (nfp self) * ph + 2 * pi * real_of_int (int i)"
      using assms by (simp add: field_simps)
    then show ?thesis by (simp only: sin_add_int_period)
  qed
  then show ?thesis by (simp add: Zaxisf_def)
qed

text \<open>
  When \<open>iota - iotaN\<close> is a whole multiple \<open>k\<close> of \<open>nfp\<close>, one field period changes \<open>thetaN\<close>
  by \<open>-2 k pi\<close>.
\<close>

lemma thetaN_shift:
  assumes "nfp self \<noteq> 0"
    and "iota self - iotaN self = real_of_int k * real_of_int (nfp self)"
  shows "theta - (iota self - iotaN self) * (ph + 2 * pi / real_of_int (nfp self))
         = (theta - (iota self - iotaN self) * ph) + 2 * pi * real_of_int (- k)"
  using assms by (simp add: field_simps)

lemma trig_thetaN_periodic:
  assumes "nfp self \<noteq> 0"
    and "iota self - iotaN self = real_of_int k * real_of_int (nfp self)"
  shows "cos (theta - (iota self - iotaN self) * (ph + 2 * pi / real_of_int (nfp self)))
         = cos (theta - (iota self - iotaN self) * ph)"
    and "sin (theta - (iota self - iotaN self) * (ph + 2 * pi / real_of_int (nfp self)))
         = sin (theta - (iota self - iotaN self) * ph)"
    and "cos (2 * (theta - (iota self - iotaN self) * (ph + 2 * pi / real_of_int (nfp self))))
         = cos (2 * (theta - (iota self - iotaN self) * ph))"
    and "sin (2 * (theta - (iota self - iotaN self) * (ph + 2 * pi / real_of_int (nfp self))))
         = sin (2 * (theta - (iota self - iotaN self) * ph))"
proof -
  note sh = thetaN_shift [OF assms, of theta ph]
  show "cos (theta - (iota self - iotaN self) * (ph + 2 * pi / real_of_int (nfp self)))
         = cos (theta - (iota self - iotaN self) * ph)"
    by (simp only: sh cos_add_int_period)
  show "sin (theta - (iota self - iotaN self) * (ph + 2 * pi / real_of_int (nfp self)))
         = sin (theta - (iota self - iotaN self) * ph)"
    by (simp only: sh sin_add_int_period)
  have d: "2 * (theta - (iota self - iotaN self) * (ph + 2 * pi / real_of_int (nfp self)))
           = 2 * (theta - (iota self - iotaN self) * ph) + 2 * pi * real_of_int (- 2 * k)"
    by (simp only: sh) simp
  show "cos (2 * (theta - (iota self - iotaN self) * (ph + 2 * pi / real_of_int (nfp self))))
         = cos (2 * (theta - (iota self - iotaN self) * ph))"
    by (simp only: d cos_add_int_period)
  show "sin (2 * (theta - (iota self - iotaN self) * (ph + 2 * pi / real_of_int (nfp self))))
         = sin (2 * (theta - (iota self - iotaN self) * ph))"
    by (simp only: d sin_add_int_period)
qed

lemma rSurf_periodic:
  assumes "nfp self \<noteq> 0"
    and "iota self - iotaN self = real_of_int k * real_of_int (nfp self)"
  shows "rSurf spline self r (ph + 2 * pi / real_of_int (nfp self)) theta
         = rSurf spline self r ph theta"
proof -
  have p: "2 * pi / real_of_int (nfp self) \<noteq> 0" using assms(1) by simp
  show ?thesis
    unfolding rSurf_def interp_defs Let_def eval_spline_Some [OF assms(1)]
      np_mod_add_period [OF p] Raxisf_periodic [OF assms(1)] trig_thetaN_periodic [OF assms]
    by (rule refl)
qed

lemma zSurf_periodic:
  assumes "nfp self \<noteq> 0"
    and "iota self - iotaN self = real_of_int k * real_of_int (nfp self)"
  shows "zSurf spline self r (ph + 2 * pi / real_of_int (nfp self)) theta
         = zSurf spline self r ph theta"
proof -
  have p: "2 * pi / real_of_int (nfp self) \<noteq> 0" using assms(1) by simp
  show ?thesis
    unfolding zSurf_def interp_defs Let_def eval_spline_Some [OF assms(1)]
      np_mod_add_period [OF p] Zaxisf_periodic [OF assms(1)] trig_thetaN_periodic [OF assms]
    by (rule refl)
qed

lemma rSurf_zero:
  "nfp self \<noteq> 0 \<Longrightarrow> rSurf spline self 0 ph theta = Some (Raxisf self ph)"
  by (simp add: rSurf_def interp_defs eval_spline_Some Let_def)

lemma zSurf_zero:
  "nfp self \<noteq> 0 \<Longrightarrow> zSurf spline self 0 ph theta = Some (Zaxisf self ph)"
  by (simp add: zSurf_def interp_defs eval_spline_Some Let_def)

lemma Raxisf_sum:
  "Raxisf self ph
   = (\<Sum>i<length (rc self). rc self ! i * cos (real i * real_of_int (nfp self) * ph))"
  by (simp add: Raxisf_def interv_sum_list_conv_sum_set_nat atLeast0LessThan)

lemma Zaxisf_sum:
  "Zaxisf self ph
   = (\<Sum>i<length (zs self). zs self ! i * sin (real i * real_of_int (nfp self) * ph))"
  by (simp add: Zaxisf_def interv_sum_list_conv_sum_set_nat atLeast0LessThan)

text \<open>
  C1 (the code departs from the claim). For a higher-order configuration the claim adds
  \<open>r^2 * (B20(phi) + B2c*cos(2 thetaN) + B2s*sin(2 thetaN))\<close>, as the second-order terms of
  \<^const>\<open>rSurf\<close> and \<^const>\<open>zSurf\<close> do. \<^const>\<open>Bf\<close> takes \<open>cos thetaN\<close> and \<open>sin thetaN\<close> there. On the
  second-order configuration with \<open>B0 = 1\<close>, \<open>etabar = 0\<close>, \<open>B20 = 0\<close>, \<open>B2c = 1\<close>, \<open>B2s = 0\<close>, at
  \<open>r = 1\<close>, \<open>phi = 0\<close>, \<open>theta = pi/2\<close>, the code returns \<open>1 + cos (pi/2) = 1\<close> and the claimed
  formula gives \<open>1 + cos pi = 0\<close>.
\<close>

theorem Bf_second_order_term_at_quarter_turn:
  "Bf flat_spline second_order 1 0 (pi / 2) = Some 1 \<and>
   evaluateFieldMagnitude_spec flat_spline second_order 1 0 (pi / 2) = Some 0"
  by (simp add: Bf_def evaluateFieldMagnitude_spec_def B20F_def eval_spline_def py_div_def
      flat_spline_def second_order_def circular_def)

text \<open>
  C2, as amended. For a configuration with \<open>nfp \<noteq> 0\<close> whose \<open>iota - iotaN\<close> is a whole multiple
  of \<open>nfp\<close>, the surface is periodic in the toroidal angle with period \<open>2 pi / nfp\<close>, in the
  R and in the Z component, for every radius, angle and interpolator.
\<close>

theorem surface_periodic_in_field_period:
  assumes "nfp self \<noteq> 0"
    and "iota self - iotaN self = real_of_int k * real_of_int (nfp self)"
  shows "rSurf spline self r (ph + 2 * pi / real_of_int (nfp self)) theta
           = rSurf spline self r ph theta \<and>
         zSurf spline self r (ph + 2 * pi / real_of_int (nfp self)) theta
           = zSurf spline self r ph theta"
  using rSurf_periodic [OF assms] zSurf_periodic [OF assms] by simp

theorem surface_periodic_in_field_period_witness:
  "nfp helical \<noteq> 0 \<and>
   iota helical - iotaN helical = real_of_int (- 1) * real_of_int (nfp helical) \<and>
   rSurf flat_spline helical (1 / 10) (pi / 6 + 2 * pi / real_of_int (nfp helical)) 1
     = rSurf flat_spline helical (1 / 10) (pi / 6) 1 \<and>
   zSurf flat_spline helical (1 / 10) (pi / 6 + 2 * pi / real_of_int (nfp helical)) 1
     = zSurf flat_spline helical (1 / 10) (pi / 6) 1"
proof -
  have h1: "nfp helical \<noteq> 0" by (simp add: helical_def circular_def)
  have h2: "iota helical - iotaN helical = real_of_int (- 1) * real_of_int (nfp helical)"
    by (simp add: helical_def circular_def)
  show ?thesis
    using h1 h2 surface_periodic_in_field_period [OF h1 h2, of flat_spline "1 / 10" "pi / 6" 1]
    by simp
qed

text \<open>
  C2 as stated, for any \<open>iota\<close> and \<open>iotaN\<close>, fails: with one field period and
  \<open>iota - iotaN = 1/2\<close>, a full toroidal turn changes \<open>thetaN\<close> by \<open>-pi\<close>, and the point at
  \<open>r = 1\<close>, \<open>theta = 0\<close> moves from \<open>R = 2\<close> to \<open>R = 0\<close>.
\<close>

theorem surface_not_periodic_for_half_twist:
  "rSurf flat_spline half_twist 1 0 0 = Some 2 \<and>
   rSurf flat_spline half_twist 1 (0 + 2 * pi / real_of_int (nfp half_twist)) 0 = Some 0"
  by (simp add: rSurf_def interp_defs eval_spline_def py_div_def Raxisf_def
      flat_spline_def half_twist_def circular_def)

text \<open>
  C7. At radius \<open>0\<close> the surface is the magnetic axis, for every \<open>phi\<close> and \<open>theta\<close> and every
  interpolator: \<open>rSurf\<close> and \<open>zSurf\<close> return \<open>Raxisf phi\<close> and \<open>Zaxisf phi\<close>, the truncated
  Fourier sums of the coefficients \<open>rc\<close> and \<open>zs\<close>, in which \<open>theta\<close> does not occur. A
  configuration has a non-zero number of field periods; with \<open>nfp = 0\<close> the interpolants
  raise ZeroDivisionError.
\<close>

theorem surface_at_zero_radius_is_axis:
  assumes "nfp self \<noteq> 0"
  shows "rSurf spline self 0 ph theta = Some (Raxisf self ph) \<and>
         zSurf spline self 0 ph theta = Some (Zaxisf self ph) \<and>
         Raxisf self ph
           = (\<Sum>i<length (rc self). rc self ! i * cos (real i * real_of_int (nfp self) * ph)) \<and>
         Zaxisf self ph
           = (\<Sum>i<length (zs self). zs self ! i * sin (real i * real_of_int (nfp self) * ph))"
  using rSurf_zero [OF assms] zSurf_zero [OF assms] Raxisf_sum Zaxisf_sum by simp

theorem surface_at_zero_radius_is_axis_witness:
  "nfp circular \<noteq> 0 \<and>
   rSurf flat_spline circular 0 (pi / 6) 1 = Some (Raxisf circular (pi / 6)) \<and>
   zSurf flat_spline circular 0 (pi / 6) 1 = Some (Zaxisf circular (pi / 6)) \<and>
   Raxisf circular (pi / 6) = 1 \<and> Zaxisf circular (pi / 6) = 0"
proof -
  have h: "nfp circular \<noteq> 0" by (simp add: circular_def)
  show ?thesis
    using h surface_at_zero_radius_is_axis [OF h, of flat_spline "pi / 6" 1]
    by (simp add: circular_def)
qed

section \<open>Properties of the mode decomposer\<close>

lemma index_in_range: "0 \<le> i \<Longrightarrow> i < int len \<Longrightarrow> index len i = Some (nat i)"
  by (simp add: index_def)

lemma has_shape_row: "has_shape a rows cols \<Longrightarrow> i < rows \<Longrightarrow> length (a ! i) = cols"
  by (simp add: has_shape_def)

lemma get2_in_range:
  assumes "has_shape a rows cols" "0 \<le> i" "i < int rows" "0 \<le> j" "j < int cols"
  shows "get2 a i j = Some (a ! nat i ! nat j)"
proof -
  have l: "length a = rows" using assms(1) by (simp add: has_shape_def)
  have "nat i < rows" using assms(2,3) by linarith
  then have "length (a ! nat i) = cols" using assms(1) by (rule has_shape_row [rotated])
  then show ?thesis using assms l by (simp add: get2_def index_in_range)
qed

lemma set2_in_range:
  assumes "has_shape a rows cols" "0 \<le> i" "i < int rows" "0 \<le> j" "j < int cols"
  shows "set2 a i j v = Some (a[nat i := (a ! nat i)[nat j := v]])"
proof -
  have l: "length a = rows" using assms(1) by (simp add: has_shape_def)
  have "nat i < rows" using assms(2,3) by linarith
  then have "length (a ! nat i) = cols" using assms(1) by (rule has_shape_row [rotated])
  then show ?thesis using assms l by (simp add: set2_def index_in_range)
qed

lemma has_shape_update:
  assumes "has_shape a rows cols" "i < rows"
  shows "has_shape (a[i := (a ! i)[j := v]]) rows cols"
proof -
  have "length row = cols" if "row \<in> set (a[i := (a ! i)[j := v]])" for row
  proof -
    from that have "row \<in> insert ((a ! i)[j := v]) (set a)"
      using set_update_subset_insert by fastforce
    then show ?thesis using assms by (auto simp: has_shape_def)
  qed
  then show ?thesis using assms(1) by (simp add: has_shape_def)
qed

lemma nth_update2:
  assumes "has_shape a rows cols" "i < rows" "j < cols" "i' < rows" "j' < cols"
  shows "a[i := (a ! i)[j := v]] ! i' ! j' = (if i' = i \<and> j' = j then v else a ! i' ! j')"
proof -
  have l: "length a = rows" using assms(1) by (simp add: has_shape_def)
  have "length (a ! i) = cols" using assms(1,2) by (rule has_shape_row)
  then show ?thesis using assms l by (auto simp: nth_list_update)
qed

lemma accumulates_for_loop:
  assumes "\<And>x. x \<in> set xs \<Longrightarrow> accumulates r c i j (body x) (dA x) (dB x) (dC x) (dD x)"
  shows "accumulates r c i j (for_loop xs body)
           (sum_list (map dA xs)) (sum_list (map dB xs))
           (sum_list (map dC xs)) (sum_list (map dD xs))"
  using assms
proof (induction xs)
  case Nil
  show ?case by (simp add: accumulates_def)
next
  case (Cons x xs)
  have hd: "accumulates r c i j (body x) (dA x) (dB x) (dC x) (dD x)"
    using Cons.prems by simp
  have tl: "accumulates r c i j (for_loop xs body)
           (sum_list (map dA xs)) (sum_list (map dB xs))
           (sum_list (map dC xs)) (sum_list (map dD xs))"
    using Cons.IH Cons.prems by simp
  show ?case
    unfolding accumulates_def
  proof (intro allI impI)
    fix A B C D
    assume sh: "has_shape A r c \<and> has_shape B r c \<and> has_shape C r c \<and> has_shape D r c"
    from hd sh obtain A1 B1 C1 D1 where
      s1: "body x (A, B, C, D) = Some (A1, B1, C1, D1)" and
      sh1: "has_shape A1 r c \<and> has_shape B1 r c \<and> has_shape C1 r c \<and> has_shape D1 r c" and
      v1: "A1 ! i ! j = A ! i ! j + dA x" "B1 ! i ! j = B ! i ! j + dB x"
          "C1 ! i ! j = C ! i ! j + dC x" "D1 ! i ! j = D ! i ! j + dD x"
      unfolding accumulates_def by blast
    from tl sh1 obtain A2 B2 C2 D2 where
      s2: "for_loop xs body (A1, B1, C1, D1) = Some (A2, B2, C2, D2)" and
      sh2: "has_shape A2 r c \<and> has_shape B2 r c \<and> has_shape C2 r c \<and> has_shape D2 r c" and
      v2: "A2 ! i ! j = A1 ! i ! j + sum_list (map dA xs)"
          "B2 ! i ! j = B1 ! i ! j + sum_list (map dB xs)"
          "C2 ! i ! j = C1 ! i ! j + sum_list (map dC xs)"
          "D2 ! i ! j = D1 ! i ! j + sum_list (map dD xs)"
      unfolding accumulates_def by blast
    have "for_loop (x # xs) body (A, B, C, D) = Some (A2, B2, C2, D2)"
      using s1 s2 by simp
    moreover have "A2 ! i ! j = A ! i ! j + sum_list (map dA (x # xs))"
      "B2 ! i ! j = B ! i ! j + sum_list (map dB (x # xs))"
      "C2 ! i ! j = C ! i ! j + sum_list (map dC (x # xs))"
      "D2 ! i ! j = D ! i ! j + sum_list (map dD (x # xs))"
      using v1 v2 by simp_all
    ultimately show "\<exists>A1 B1 C1 D1.
           for_loop (x # xs) body (A, B, C, D) = Some (A1, B1, C1, D1) \<and>
           has_shape A1 r c \<and> has_shape B1 r c \<and>
           has_shape C1 r c \<and> has_shape D1 r c \<and>
           A1 ! i ! j = A ! i ! j + sum_list (map dA (x # xs)) \<and>
           B1 ! i ! j = B ! i ! j + sum_list (map dB (x # xs)) \<and>
           C1 ! i ! j = C ! i ! j + sum_list (map dC (x # xs)) \<and>
           D1 ! i ! j = D ! i ! j + sum_list (map dD (x # xs))"
      using sh2 by blast
  qed
qed

lemma accumulates_body:
  assumes n: "0 \<le> n + ntor" "n + ntor < int r" and m: "0 \<le> m" "m < int c"
    and ij: "i < r" "j < c"
    and x: "get2 R_2D (int j_theta) (int j_phi) = Some (R_2D ! j_theta ! j_phi)"
    and y: "get2 Z_2D (int j_theta) (int j_phi) = Some (Z_2D ! j_theta ! j_phi)"
  shows "accumulates r c i j
           (to_Fourier_body R_2D Z_2D nfp' ntheta nphi_conversion theta phi_conversion factor ntor
                            j_phi j_theta m n)
           (if nat (n + ntor) = i \<and> nat m = j
            then loop_term cos R_2D nfp' ntheta nphi_conversion theta phi_conversion factor
                   j_phi j_theta m n else 0)
           (if nat (n + ntor) = i \<and> nat m = j
            then loop_term sin R_2D nfp' ntheta nphi_conversion theta phi_conversion factor
                   j_phi j_theta m n else 0)
           (if nat (n + ntor) = i \<and> nat m = j
            then loop_term cos Z_2D nfp' ntheta nphi_conversion theta phi_conversion factor
                   j_phi j_theta m n else 0)
           (if nat (n + ntor) = i \<and> nat m = j
            then loop_term sin Z_2D nfp' ntheta nphi_conversion theta phi_conversion factor
                   j_phi j_theta m n else 0)"
  unfolding accumulates_def
proof (intro allI impI)
  fix A B C D
  assume sh: "has_shape A r c \<and> has_shape B r c \<and> has_shape C r c \<and> has_shape D r c"
  let ?k = "nat (n + ntor)" and ?m = "nat m"
  let ?t = "\<lambda>trig a. loop_term trig a nfp' ntheta nphi_conversion theta phi_conversion factor
                        j_phi j_theta m n"
  have k: "?k < r" "?m < c" using n m by linarith+
  note g = get2_in_range [OF _ n m] and s = set2_in_range [OF _ n m]
  have step: "to_Fourier_body R_2D Z_2D nfp' ntheta nphi_conversion theta phi_conversion factor ntor
                j_phi j_theta m n (A, B, C, D)
        = Some (A[?k := (A ! ?k)[?m := A ! ?k ! ?m + ?t cos R_2D]],
                B[?k := (B ! ?k)[?m := B ! ?k ! ?m + ?t sin R_2D]],
                C[?k := (C ! ?k)[?m := C ! ?k ! ?m + ?t cos Z_2D]],
                D[?k := (D ! ?k)[?m := D ! ?k ! ?m + ?t sin Z_2D]])"
    using sh by (simp add: to_Fourier_body_def Let_def g s x y loop_term_def term_angle_def)
  show "\<exists>A1 B1 C1 D1.
          to_Fourier_body R_2D Z_2D nfp' ntheta nphi_conversion theta phi_conversion factor ntor
            j_phi j_theta m n (A, B, C, D) = Some (A1, B1, C1, D1) \<and>
          has_shape A1 r c \<and> has_shape B1 r c \<and> has_shape C1 r c \<and> has_shape D1 r c \<and>
          A1 ! i ! j = A ! i ! j + (if ?k = i \<and> ?m = j then ?t cos R_2D else 0) \<and>
          B1 ! i ! j = B ! i ! j + (if ?k = i \<and> ?m = j then ?t sin R_2D else 0) \<and>
          C1 ! i ! j = C ! i ! j + (if ?k = i \<and> ?m = j then ?t cos Z_2D else 0) \<and>
          D1 ! i ! j = D ! i ! j + (if ?k = i \<and> ?m = j then ?t sin Z_2D else 0)"
    unfolding step using sh k ij
    by (auto simp: has_shape_update nth_update2 [where rows = r and cols = c])
qed

text \<open>A nest of four loops accumulates the sum of what its body accumulates.\<close>

lemma accumulates_nested:
  assumes "\<And>p t m n. p \<in> set ps \<Longrightarrow> t \<in> set ts \<Longrightarrow> m \<in> set ms \<Longrightarrow> n \<in> set (ns m) \<Longrightarrow>
             accumulates r c i j (body p t m n) (dA p t m n) (dB p t m n) (dC p t m n) (dD p t m n)"
  shows "accumulates r c i j
           (for_loop ps (\<lambda>p. for_loop ts (\<lambda>t. for_loop ms (\<lambda>m. for_loop (ns m) (body p t m)))))
           (\<Sum>p\<leftarrow>ps. \<Sum>t\<leftarrow>ts. \<Sum>m\<leftarrow>ms. \<Sum>n\<leftarrow>ns m. dA p t m n)
           (\<Sum>p\<leftarrow>ps. \<Sum>t\<leftarrow>ts. \<Sum>m\<leftarrow>ms. \<Sum>n\<leftarrow>ns m. dB p t m n)
           (\<Sum>p\<leftarrow>ps. \<Sum>t\<leftarrow>ts. \<Sum>m\<leftarrow>ms. \<Sum>n\<leftarrow>ns m. dC p t m n)
           (\<Sum>p\<leftarrow>ps. \<Sum>t\<leftarrow>ts. \<Sum>m\<leftarrow>ms. \<Sum>n\<leftarrow>ns m. dD p t m n)"
proof (rule accumulates_for_loop)
  fix p assume p: "p \<in> set ps"
  show "accumulates r c i j
          (for_loop ts (\<lambda>t. for_loop ms (\<lambda>m. for_loop (ns m) (body p t m))))
          (\<Sum>t\<leftarrow>ts. \<Sum>m\<leftarrow>ms. \<Sum>n\<leftarrow>ns m. dA p t m n) (\<Sum>t\<leftarrow>ts. \<Sum>m\<leftarrow>ms. \<Sum>n\<leftarrow>ns m. dB p t m n)
          (\<Sum>t\<leftarrow>ts. \<Sum>m\<leftarrow>ms. \<Sum>n\<leftarrow>ns m. dC p t m n) (\<Sum>t\<leftarrow>ts. \<Sum>m\<leftarrow>ms. \<Sum>n\<leftarrow>ns m. dD p t m n)"
  proof (rule accumulates_for_loop)
    fix t assume t: "t \<in> set ts"
    show "accumulates r c i j (for_loop ms (\<lambda>m. for_loop (ns m) (body p t m)))
            (\<Sum>m\<leftarrow>ms. \<Sum>n\<leftarrow>ns m. dA p t m n) (\<Sum>m\<leftarrow>ms. \<Sum>n\<leftarrow>ns m. dB p t m n)
            (\<Sum>m\<leftarrow>ms. \<Sum>n\<leftarrow>ns m. dC p t m n) (\<Sum>m\<leftarrow>ms. \<Sum>n\<leftarrow>ns m. dD p t m n)"
    proof (rule accumulates_for_loop)
      fix m assume m: "m \<in> set ms"
      show "accumulates r c i j (for_loop (ns m) (body p t m))
              (\<Sum>n\<leftarrow>ns m. dA p t m n) (\<Sum>n\<leftarrow>ns m. dB p t m n)
              (\<Sum>n\<leftarrow>ns m. dC p t m n) (\<Sum>n\<leftarrow>ns m. dD p t m n)"
        by (rule accumulates_for_loop) (rule assms [OF p t m])
    qed
  qed
qed

lemma indicator_sum_upto:
  "(\<Sum>x\<leftarrow>[l..u]. if x = a then f x else 0) = (if l \<le> a \<and> a \<le> u then f a else (0::real))"
proof -
  have "(\<Sum>x\<leftarrow>[l..u]. if x = a then f x else 0) = (\<Sum>x\<in>set [l..u]. if x = a then f x else 0)"
    by (rule sum_list_distinct_conv_sum_set) simp
  also have "\<dots> = (if a \<in> set [l..u] then f a else 0)"
    by (rule sum.delta) simp
  finally show ?thesis by simp
qed

text \<open>
  Of the terms of all modes, those stored at the position of the mode \<open>(m, n)\<close> are the
  terms of that mode, if the loops visit it.
\<close>

lemma mode_sum_collapse:
  fixes g :: "int \<Rightarrow> int \<Rightarrow> real"
  assumes "0 \<le> ntor" "0 \<le> m" "m \<le> mpol" "- ntor \<le> n" "n \<le> ntor"
  shows "(\<Sum>m'\<leftarrow>[0..mpol]. \<Sum>n'\<leftarrow>[(if m' = 0 then 1 else - ntor)..ntor].
            if nat (n' + ntor) = nat (n + ntor) \<and> nat m' = nat m then g m' n' else 0)
         = (if m = 0 \<and> n < 1 then 0 else g m n)"
proof -
  have inner: "(\<Sum>n'\<leftarrow>[(if m' = 0 then 1 else - ntor)..ntor].
            if nat (n' + ntor) = nat (n + ntor) \<and> nat m' = nat m then g m' n' else 0)
        = (if m' = m then (if m = 0 \<and> n < 1 then 0 else g m n) else 0)"
    if "m' \<in> set [0..mpol]" for m'
  proof -
    have "(\<Sum>n'\<leftarrow>[(if m' = 0 then 1 else - ntor)..ntor].
            if nat (n' + ntor) = nat (n + ntor) \<and> nat m' = nat m then g m' n' else 0)
        = (\<Sum>n'\<leftarrow>[(if m' = 0 then 1 else - ntor)..ntor].
            if n' = n then (if m' = m then g m' n' else 0) else 0)"
      using that assms by (intro arg_cong [where f = sum_list] map_cong refl) (auto split: if_splits)
    also have "\<dots> = (if m' = m then (if m = 0 \<and> n < 1 then 0 else g m n) else 0)"
      using assms by (auto simp: indicator_sum_upto)
    finally show ?thesis .
  qed
  have "(\<Sum>m'\<leftarrow>[0..mpol]. \<Sum>n'\<leftarrow>[(if m' = 0 then 1 else - ntor)..ntor].
            if nat (n' + ntor) = nat (n + ntor) \<and> nat m' = nat m then g m' n' else 0)
        = (\<Sum>m'\<leftarrow>[0..mpol]. if m' = m then (if m = 0 \<and> n < 1 then 0 else g m n) else 0)"
    by (intro arg_cong [where f = sum_list] map_cong refl inner)
  also have "\<dots> = (if m = 0 \<and> n < 1 then 0 else g m n)"
    using assms by (simp add: indicator_sum_upto)
  finally show ?thesis .
qed

lemma has_shape_zeros: "has_shape (replicate r (replicate c 0)) r c"
  by (simp add: has_shape_def)

lemma to_Fourier_loops_from_zeros:
  assumes ntor: "0 \<le> ntor" and mpol: "0 \<le> mpol"
    and r: "r = nat (2 * ntor + 1)" and c: "c = nat (mpol + 1)"
    and R: "\<And>j_phi j_theta. j_phi < nphi_conversion \<Longrightarrow> j_theta < nat ntheta \<Longrightarrow>
              get2 R_2D (int j_theta) (int j_phi) = Some (R_2D ! j_theta ! j_phi)"
    and Z: "\<And>j_phi j_theta. j_phi < nphi_conversion \<Longrightarrow> j_theta < nat ntheta \<Longrightarrow>
              get2 Z_2D (int j_theta) (int j_phi) = Some (Z_2D ! j_theta ! j_phi)"
  shows "\<exists>A B C D.
           to_Fourier_loops R_2D Z_2D nfp' ntheta nphi_conversion theta phi_conversion factor
             mpol ntor (replicate r (replicate c 0), replicate r (replicate c 0),
                        replicate r (replicate c 0), replicate r (replicate c 0))
             = Some (A, B, C, D) \<and>
           has_shape A r c \<and> has_shape B r c \<and> has_shape C r c \<and> has_shape D r c \<and>
           (\<forall>m n. 0 \<le> m \<and> m \<le> mpol \<and> - ntor \<le> n \<and> n \<le> ntor \<longrightarrow>
              A ! nat (n + ntor) ! nat m =
                (if m = 0 \<and> n < 1 then 0 else
                 \<Sum>j_phi\<leftarrow>[0..<nphi_conversion]. \<Sum>j_theta\<leftarrow>[0..<nat ntheta].
                   loop_term cos R_2D nfp' ntheta nphi_conversion theta phi_conversion factor
                     j_phi j_theta m n) \<and>
              B ! nat (n + ntor) ! nat m =
                (if m = 0 \<and> n < 1 then 0 else
                 \<Sum>j_phi\<leftarrow>[0..<nphi_conversion]. \<Sum>j_theta\<leftarrow>[0..<nat ntheta].
                   loop_term sin R_2D nfp' ntheta nphi_conversion theta phi_conversion factor
                     j_phi j_theta m n) \<and>
              C ! nat (n + ntor) ! nat m =
                (if m = 0 \<and> n < 1 then 0 else
                 \<Sum>j_phi\<leftarrow>[0..<nphi_conversion]. \<Sum>j_theta\<leftarrow>[0..<nat ntheta].
                   loop_term cos Z_2D nfp' ntheta nphi_conversion theta phi_conversion factor
                     j_phi j_theta m n) \<and>
              D ! nat (n + ntor) ! nat m =
                (if m = 0 \<and> n < 1 then 0 else
                 \<Sum>j_phi\<leftarrow>[0..<nphi_conversion]. \<Sum>j_theta\<leftarrow>[0..<nat ntheta].
                   loop_term sin Z_2D nfp' ntheta nphi_conversion theta phi_conversion factor
                     j_phi j_theta m n))"
proof -
  let ?Z0 = "replicate r (replicate c (0::real))"
  let ?loops = "to_Fourier_loops R_2D Z_2D nfp' ntheta nphi_conversion theta phi_conversion
                  factor mpol ntor"
  let ?t = "\<lambda>trig a j_phi j_theta m n.
              loop_term trig a nfp' ntheta nphi_conversion theta phi_conversion factor
                j_phi j_theta m n"
  let ?S = "\<lambda>i j trig a.
              \<Sum>j_phi\<leftarrow>[0..<nphi_conversion]. \<Sum>j_theta\<leftarrow>[0..<nat ntheta]. \<Sum>m\<leftarrow>[0..mpol].
                \<Sum>n\<leftarrow>[(if m = 0 then 1 else - ntor)..ntor].
                  if nat (n + ntor) = i \<and> nat m = j then ?t trig a j_phi j_theta m n else 0"
  have acc: "accumulates r c i j ?loops
               (?S i j cos R_2D) (?S i j sin R_2D) (?S i j cos Z_2D) (?S i j sin Z_2D)"
    if ij: "i < r" "j < c" for i j
    unfolding to_Fourier_loops_def Let_def add_diff_cancel_right'
  proof (rule accumulates_nested)
    fix j_phi j_theta m n
    assume "j_phi \<in> set [0..<nphi_conversion]" "j_theta \<in> set [0..<nat ntheta]"
      "m \<in> set [0..mpol]" "n \<in> set [(if m = 0 then 1 else - ntor)..ntor]"
    then have jp: "j_phi < nphi_conversion" and jt: "j_theta < nat ntheta"
      and m: "0 \<le> m" "m < int c" and n: "0 \<le> n + ntor" "n + ntor < int r"
      using r c ntor by (auto split: if_splits)
    show "accumulates r c i j
            (to_Fourier_body R_2D Z_2D nfp' ntheta nphi_conversion theta phi_conversion factor
               ntor j_phi j_theta m n)
            (if nat (n + ntor) = i \<and> nat m = j then ?t cos R_2D j_phi j_theta m n else 0)
            (if nat (n + ntor) = i \<and> nat m = j then ?t sin R_2D j_phi j_theta m n else 0)
            (if nat (n + ntor) = i \<and> nat m = j then ?t cos Z_2D j_phi j_theta m n else 0)
            (if nat (n + ntor) = i \<and> nat m = j then ?t sin Z_2D j_phi j_theta m n else 0)"
      by (rule accumulates_body [OF n m ij R [OF jp jt] Z [OF jp jt]])
  qed
  have pos: "0 < r" "0 < c" using r c ntor mpol by simp_all
  have sh0: "has_shape ?Z0 r c \<and> has_shape ?Z0 r c \<and> has_shape ?Z0 r c \<and> has_shape ?Z0 r c"
    by (simp add: has_shape_zeros)
  from acc [OF pos] sh0 obtain A B C D where
    res: "?loops (?Z0, ?Z0, ?Z0, ?Z0) = Some (A, B, C, D)" and
    sh: "has_shape A r c" "has_shape B r c" "has_shape C r c" "has_shape D r c"
    unfolding accumulates_def by blast
  have vals:
    "A ! nat (n + ntor) ! nat m =
       (if m = 0 \<and> n < 1 then 0 else
        \<Sum>j_phi\<leftarrow>[0..<nphi_conversion]. \<Sum>j_theta\<leftarrow>[0..<nat ntheta]. ?t cos R_2D j_phi j_theta m n) \<and>
     B ! nat (n + ntor) ! nat m =
       (if m = 0 \<and> n < 1 then 0 else
        \<Sum>j_phi\<leftarrow>[0..<nphi_conversion]. \<Sum>j_theta\<leftarrow>[0..<nat ntheta]. ?t sin R_2D j_phi j_theta m n) \<and>
     C ! nat (n + ntor) ! nat m =
       (if m = 0 \<and> n < 1 then 0 else
        \<Sum>j_phi\<leftarrow>[0..<nphi_conversion]. \<Sum>j_theta\<leftarrow>[0..<nat ntheta]. ?t cos Z_2D j_phi j_theta m n) \<and>
     D ! nat (n + ntor) ! nat m =
       (if m = 0 \<and> n < 1 then 0 else
        \<Sum>j_phi\<leftarrow>[0..<nphi_conversion]. \<Sum>j_theta\<leftarrow>[0..<nat ntheta]. ?t sin Z_2D j_phi j_theta m n)"
    if mn: "0 \<le> m" "m \<le> mpol" "- ntor \<le> n" "n \<le> ntor" for m n
  proof -
    have i: "nat (n + ntor) < r" and j: "nat m < c" using mn r c by linarith+
    have z: "?Z0 ! nat (n + ntor) ! nat m = 0" using i j by simp
    note col = mode_sum_collapse [OF ntor mn]
    from acc [OF i j] sh0 obtain A1 B1 C1 D1 where
      "?loops (?Z0, ?Z0, ?Z0, ?Z0) = Some (A1, B1, C1, D1)" and
      v: "A1 ! nat (n + ntor) ! nat m
            = ?Z0 ! nat (n + ntor) ! nat m + ?S (nat (n + ntor)) (nat m) cos R_2D"
         "B1 ! nat (n + ntor) ! nat m
            = ?Z0 ! nat (n + ntor) ! nat m + ?S (nat (n + ntor)) (nat m) sin R_2D"
         "C1 ! nat (n + ntor) ! nat m
            = ?Z0 ! nat (n + ntor) ! nat m + ?S (nat (n + ntor)) (nat m) cos Z_2D"
         "D1 ! nat (n + ntor) ! nat m
            = ?Z0 ! nat (n + ntor) ! nat m + ?S (nat (n + ntor)) (nat m) sin Z_2D"
      unfolding accumulates_def by blast
    with res have eq: "A1 = A" "B1 = B" "C1 = C" "D1 = D" by simp_all
    show ?thesis
    proof (cases "m = 0 \<and> n < 1")
      case True
      then have t: "(m = 0 \<and> n < 1) = True" by simp
      show ?thesis using v unfolding eq z col t by simp
    next
      case False
      then have f: "(m = 0 \<and> n < 1) = False" by simp
      show ?thesis using v unfolding eq z col f by simp
    qed
  qed
  show ?thesis using res sh vals by blast
qed

lemma get2_sampled:
  assumes "sampled_on a ntheta nphi_conversion" "j_phi < nphi_conversion" "j_theta < nat ntheta"
  shows "get2 a (int j_theta) (int j_phi) = Some (a ! j_theta ! j_phi)"
proof -
  have jt: "j_theta < length a" using assms unfolding sampled_on_def by linarith
  then have "a ! j_theta \<in> set a" by simp
  then have "length (a ! j_theta) = nphi_conversion" using assms(1) by (simp add: sampled_on_def)
  then show ?thesis using jt assms(2) by (simp add: get2_def index_def)
qed

lemma shape1_sampled:
  assumes "sampled_on a ntheta nphi_conversion" "0 < ntheta"
  shows "shape1 a = Some nphi_conversion"
  using assms by (cases a) (auto simp: shape1_def sampled_on_def)

text \<open>With the grids of lines 27 and 28, the terms of a mode add up to \<^const>\<open>fourier_sum\<close>.\<close>

lemma grid_sum_conv:
  assumes theta: "theta = map (\<lambda>k. real k * ((2 * pi - 0) / real_of_int ntheta) + 0)
                              [0..<nat ntheta]"
    and phi: "phi_conversion =
                map (\<lambda>k. real k * ((2 * pi / real_of_int nfp' - 0)
                                      / real_of_int (int nphi_conversion)) + 0)
                    [0..<nat (int nphi_conversion)]"
    and factor: "factor = 2 / real_of_int (ntheta * int nphi_conversion)"
  shows "(\<Sum>j_phi\<leftarrow>[0..<nphi_conversion]. \<Sum>j_theta\<leftarrow>[0..<nat ntheta].
            loop_term trig a nfp' ntheta nphi_conversion theta phi_conversion factor
              j_phi j_theta m n)
         = fourier_sum trig a nfp' ntheta nphi_conversion m n"
proof -
  have eq: "loop_term trig a nfp' ntheta nphi_conversion theta phi_conversion factor
              j_phi j_theta m n
        = a ! j_theta ! j_phi
          * trig (mode_angle nfp' ntheta nphi_conversion j_phi j_theta m n)
          * factor2 (2 / real_of_int (ntheta * int nphi_conversion)) ntheta nphi_conversion m n"
    if "j_phi < nphi_conversion" "j_theta < nat ntheta" for j_phi j_theta
    using that by (simp add: loop_term_def term_angle_def mode_angle_def theta phi factor)
  have "(\<Sum>j_phi\<leftarrow>[0..<nphi_conversion]. \<Sum>j_theta\<leftarrow>[0..<nat ntheta].
            loop_term trig a nfp' ntheta nphi_conversion theta phi_conversion factor
              j_phi j_theta m n)
        = (\<Sum>j_phi\<in>set [0..<nphi_conversion]. \<Sum>j_theta\<in>set [0..<nat ntheta].
            loop_term trig a nfp' ntheta nphi_conversion theta phi_conversion factor
              j_phi j_theta m n)"
    by (simp only: interv_sum_list_conv_sum_set_nat)
  also have "\<dots> = (\<Sum>j_phi\<in>set [0..<nphi_conversion]. \<Sum>j_theta\<in>set [0..<nat ntheta].
            a ! j_theta ! j_phi
            * trig (mode_angle nfp' ntheta nphi_conversion j_phi j_theta m n)
            * factor2 (2 / real_of_int (ntheta * int nphi_conversion))
                ntheta nphi_conversion m n)"
    by (intro sum.cong refl) (simp add: eq)
  also have "\<dots> = fourier_sum trig a nfp' ntheta nphi_conversion m n"
    by (simp add: fourier_sum_def atLeast0LessThan)
  finally show ?thesis .
qed

text \<open>
  The result of \<open>to_Fourier\<close> on a sample that covers the grid: the four arrays after the
  loops and the two assignments of lines 51 and 52, of which the symmetry flag selects what
  is returned.
\<close>

lemma to_Fourier_result:
  assumes ntheta: "0 < ntheta" and nphi: "0 < nphi_conversion" and nfp: "nfp' \<noteq> 0"
    and mpol: "0 \<le> mpol" and ntor: "0 \<le> ntor"
    and R: "sampled_on R_2D ntheta nphi_conversion"
    and Z: "sampled_on Z_2D ntheta nphi_conversion"
  shows "\<exists>A B C D.
           (\<forall>lasym'. to_Fourier R_2D Z_2D nfp' ntheta mpol ntor lasym'
             = Some (Arr A, if lasym' then Arr B else Scalar 0,
                     if lasym' then Arr C else Scalar 0, Arr D)) \<and>
           has_shape A (nat (2 * ntor + 1)) (nat (mpol + 1)) \<and>
           has_shape B (nat (2 * ntor + 1)) (nat (mpol + 1)) \<and>
           has_shape C (nat (2 * ntor + 1)) (nat (mpol + 1)) \<and>
           has_shape D (nat (2 * ntor + 1)) (nat (mpol + 1)) \<and>
           (\<forall>m n. 0 \<le> m \<and> m \<le> mpol \<and> - ntor \<le> n \<and> n \<le> ntor \<longrightarrow>
              A ! nat (n + ntor) ! nat m =
                (if m = 0 \<and> n = 0
                 then np_sum R_2D / real_of_int (ntheta * int nphi_conversion)
                 else if m = 0 \<and> n < 1 then 0 else
                 fourier_sum cos R_2D nfp' ntheta nphi_conversion m n) \<and>
              B ! nat (n + ntor) ! nat m =
                (if m = 0 \<and> n < 1 then 0 else
                 fourier_sum sin R_2D nfp' ntheta nphi_conversion m n) \<and>
              C ! nat (n + ntor) ! nat m =
                (if m = 0 \<and> n = 0
                 then np_sum Z_2D / real_of_int (ntheta * int nphi_conversion)
                 else if m = 0 \<and> n < 1 then 0 else
                 fourier_sum cos Z_2D nfp' ntheta nphi_conversion m n) \<and>
              D ! nat (n + ntor) ! nat m =
                (if m = 0 \<and> n < 1 then 0 else
                 fourier_sum sin Z_2D nfp' ntheta nphi_conversion m n))"
proof -
  define r where "r = nat (2 * ntor + 1)"
  define c where "c = nat (mpol + 1)"
  define theta where
    "theta = map (\<lambda>k. real k * ((2 * pi - 0) / real_of_int ntheta) + 0) [0..<nat ntheta]"
  define phi_conversion where
    "phi_conversion = map (\<lambda>k. real k * ((2 * pi / real_of_int nfp' - 0)
                                      / real_of_int (int nphi_conversion)) + 0)
                    [0..<nat (int nphi_conversion)]"
  define factor where "factor = 2 / real_of_int (ntheta * int nphi_conversion)"
  define meanR where "meanR = np_sum R_2D / real_of_int (ntheta * int nphi_conversion)"
  define meanZ where "meanZ = np_sum Z_2D / real_of_int (ntheta * int nphi_conversion)"
  note conv = grid_sum_conv [OF theta_def phi_conversion_def factor_def]
  have gR: "\<And>j_phi j_theta. j_phi < nphi_conversion \<Longrightarrow> j_theta < nat ntheta \<Longrightarrow>
              get2 R_2D (int j_theta) (int j_phi) = Some (R_2D ! j_theta ! j_phi)"
    by (rule get2_sampled [OF R])
  have gZ: "\<And>j_phi j_theta. j_phi < nphi_conversion \<Longrightarrow> j_theta < nat ntheta \<Longrightarrow>
              get2 Z_2D (int j_theta) (int j_phi) = Some (Z_2D ! j_theta ! j_phi)"
    by (rule get2_sampled [OF Z])
  from to_Fourier_loops_from_zeros [where R_2D = R_2D and Z_2D = Z_2D
      and nphi_conversion = nphi_conversion and ntheta = ntheta and nfp' = nfp'
      and theta = theta and phi_conversion = phi_conversion and factor = factor,
      OF ntor mpol r_def c_def gR gZ]
  obtain A B C D where
    loops: "to_Fourier_loops R_2D Z_2D nfp' ntheta nphi_conversion theta phi_conversion factor
             mpol ntor (replicate r (replicate c 0), replicate r (replicate c 0),
                        replicate r (replicate c 0), replicate r (replicate c 0))
             = Some (A, B, C, D)" and
    sh: "has_shape A r c" "has_shape B r c" "has_shape C r c" "has_shape D r c" and
    vals: "\<And>m n. 0 \<le> m \<and> m \<le> mpol \<and> - ntor \<le> n \<and> n \<le> ntor \<Longrightarrow>
              A ! nat (n + ntor) ! nat m =
                (if m = 0 \<and> n < 1 then 0
                 else fourier_sum cos R_2D nfp' ntheta nphi_conversion m n) \<and>
              B ! nat (n + ntor) ! nat m =
                (if m = 0 \<and> n < 1 then 0
                 else fourier_sum sin R_2D nfp' ntheta nphi_conversion m n) \<and>
              C ! nat (n + ntor) ! nat m =
                (if m = 0 \<and> n < 1 then 0
                 else fourier_sum cos Z_2D nfp' ntheta nphi_conversion m n) \<and>
              D ! nat (n + ntor) ! nat m =
                (if m = 0 \<and> n < 1 then 0
                 else fourier_sum sin Z_2D nfp' ntheta nphi_conversion m n)"
    unfolding conv by blast
  have rng: "0 \<le> ntor" "ntor < int r" "(0::int) \<le> 0" "0 < int c"
    using ntor mpol by (simp_all add: r_def c_def)
  define A' where "A' = A[nat ntor := (A ! nat ntor)[nat 0 := meanR]]"
  define C' where "C' = C[nat ntor := (C ! nat ntor)[nat 0 := meanZ]]"
  have setA: "set2 A ntor 0 meanR = Some A'"
    unfolding A'_def by (rule set2_in_range [OF sh(1) rng])
  have setC: "set2 C ntor 0 meanZ = Some C'"
    unfolding C'_def by (rule set2_in_range [OF sh(3) rng])
  have nt: "nat ntor < r" "nat (0::int) < c" using rng by linarith+
  have shA': "has_shape A' r c" unfolding A'_def by (rule has_shape_update [OF sh(1) nt(1)])
  have shC': "has_shape C' r c" unfolding C'_def by (rule has_shape_update [OF sh(3) nt(1)])
  have nz: "ntheta * int nphi_conversion \<noteq> 0" using ntheta nphi by simp
  have s1: "shape1 R_2D = Some nphi_conversion" by (rule shape1_sampled [OF R ntheta])
  have s2: "linspace 0 (2 * pi) ntheta = Some theta"
    using ntheta by (simp add: linspace_def theta_def)
  have s3: "py_div (2 * pi) nfp' = Some (2 * pi / real_of_int nfp')"
    using nfp by (simp add: py_div_def)
  have s4: "linspace 0 (2 * pi / real_of_int nfp') (int nphi_conversion) = Some phi_conversion"
    by (simp add: linspace_def phi_conversion_def)
  have s5: "zeros (2 * ntor + 1) (mpol + 1) = Some (replicate r (replicate c 0))"
    using ntor mpol by (simp add: zeros_def r_def c_def)
  have s6: "py_div 2 (ntheta * int nphi_conversion) = Some factor"
    using nz by (simp add: py_div_def factor_def)
  have run: "to_Fourier R_2D Z_2D nfp' ntheta mpol ntor lasym'
             = Some (Arr A', if lasym' then Arr B else Scalar 0,
                     if lasym' then Arr C' else Scalar 0, Arr D)" for lasym'
    by (simp only: to_Fourier_def s1 s2 s3 s4 s5 s6 Option.bind.bind_lunit loops prod.case
        setA [unfolded meanR_def] setC [unfolded meanZ_def]) simp
  have entries:
    "A' ! nat (n + ntor) ! nat m =
       (if m = 0 \<and> n = 0 then meanR else A ! nat (n + ntor) ! nat m) \<and>
     C' ! nat (n + ntor) ! nat m =
       (if m = 0 \<and> n = 0 then meanZ else C ! nat (n + ntor) ! nat m)"
    if mn: "0 \<le> m \<and> m \<le> mpol \<and> - ntor \<le> n \<and> n \<le> ntor" for m n
  proof -
    have i: "nat (n + ntor) < r" and j: "nat m < c" using mn by (simp_all add: r_def c_def)
    have e: "nat (n + ntor) = nat ntor \<and> nat m = nat 0 \<longleftrightarrow> m = 0 \<and> n = 0"
      using mn ntor by auto
    show ?thesis
      unfolding A'_def C'_def nth_update2 [OF sh(1) nt i j] nth_update2 [OF sh(3) nt i j] e
      by simp
  qed
  have all: "A' ! nat (n + ntor) ! nat m =
                (if m = 0 \<and> n = 0 then meanR
                 else if m = 0 \<and> n < 1 then 0
                 else fourier_sum cos R_2D nfp' ntheta nphi_conversion m n) \<and>
              B ! nat (n + ntor) ! nat m =
                (if m = 0 \<and> n < 1 then 0
                 else fourier_sum sin R_2D nfp' ntheta nphi_conversion m n) \<and>
              C' ! nat (n + ntor) ! nat m =
                (if m = 0 \<and> n = 0 then meanZ
                 else if m = 0 \<and> n < 1 then 0
                 else fourier_sum cos Z_2D nfp' ntheta nphi_conversion m n) \<and>
              D ! nat (n + ntor) ! nat m =
                (if m = 0 \<and> n < 1 then 0
                 else fourier_sum sin Z_2D nfp' ntheta nphi_conversion m n)"
    if mn: "0 \<le> m \<and> m \<le> mpol \<and> - ntor \<le> n \<and> n \<le> ntor" for m n
    using entries [OF mn] vals [OF mn] by presburger
  show ?thesis
    apply (rule exI [of _ A'])
    apply (rule exI [of _ B])
    apply (rule exI [of _ C'])
    apply (rule exI [of _ D])
    apply (intro conjI allI impI)
            apply (rule run)
           apply (rule shA' [unfolded r_def c_def])
          apply (rule sh(2) [unfolded r_def c_def])
         apply (rule shC' [unfolded r_def c_def])
        apply (rule sh(4) [unfolded r_def c_def])
       apply (rule all [unfolded meanR_def meanZ_def, THEN conjunct1], assumption)
      apply (rule all [unfolded meanR_def meanZ_def, THEN conjunct2, THEN conjunct1], assumption)
     apply (rule all [unfolded meanR_def meanZ_def, THEN conjunct2, THEN conjunct2, THEN conjunct1],
        assumption)
    apply (rule all [unfolded meanR_def meanZ_def, THEN conjunct2, THEN conjunct2, THEN conjunct2],
        assumption)
    done
qed

lemma factor2_closed_form:
  "factor2 factor ntheta nphi_conversion m n =
     factor * (if ntheta mod 2 = 0 \<and> 2 * m = ntheta then 1 / 2 else 1)
            * (if int nphi_conversion mod 2 = 0 \<and> 2 * \<bar>n\<bar> = int nphi_conversion
               then 1 / 2 else 1)"
proof -
  have a: "real_of_int m = real_of_int ntheta / 2 \<longleftrightarrow> 2 * m = ntheta"
  proof -
    have "real_of_int m = real_of_int ntheta / 2 \<longleftrightarrow> real_of_int (2 * m) = real_of_int ntheta"
      by (simp add: field_simps)
    then show ?thesis by (simp only: of_int_eq_iff)
  qed
  have b: "real_of_int \<bar>n\<bar> = real nphi_conversion / 2 \<longleftrightarrow> 2 * \<bar>n\<bar> = int nphi_conversion"
  proof -
    have "real_of_int \<bar>n\<bar> = real nphi_conversion / 2
          \<longleftrightarrow> real_of_int (2 * \<bar>n\<bar>) = real_of_int (int nphi_conversion)"
      by (simp add: field_simps)
    then show ?thesis by (simp only: of_int_eq_iff)
  qed
  show ?thesis unfolding factor2_def Let_def a b by simp
qed

lemma to_Fourier_form:
  assumes "to_Fourier R_2D Z_2D nfp' ntheta mpol ntor lasym' = Some res"
  shows "\<exists>A B C D. res = (Arr A, if lasym' then Arr B else Scalar 0,
                          if lasym' then Arr C else Scalar 0, Arr D)"
  using assms
  by (auto simp: to_Fourier_def split: Option.bind_splits prod.splits if_splits)


lemma factor2_nyquist_scale:
  "factor2 (2 / real_of_int (ntheta * int nphi_conversion)) ntheta nphi_conversion m n
   = nyquist_scale ntheta nphi_conversion m n"
proof -
  have e1: "(ntheta mod 2 = 0) = even ntheta" by presburger
  have e2: "(int nphi_conversion mod 2 = 0) = even nphi_conversion" by presburger
  show ?thesis unfolding factor2_closed_form nyquist_scale_def e1 e2 by (rule refl)
qed

lemma fourier_sum_scale:
  "fourier_sum trig a nfp' ntheta nphi_conversion m n =
     nyquist_scale ntheta nphi_conversion m n
     * (\<Sum>j_phi<nphi_conversion. \<Sum>j_theta<nat ntheta.
          a ! j_theta ! j_phi * trig (mode_angle nfp' ntheta nphi_conversion j_phi j_theta m n))"
  unfolding fourier_sum_def factor2_nyquist_scale
  by (simp add: sum_distrib_left mult_ac)

lemma grid_sampled: "sampled_on grid_R 2 2" "sampled_on grid_Z 2 2"
  by (simp_all add: sampled_on_def grid_R_def grid_Z_def)

text \<open>
  C3. On a sample that covers the grid, every accumulated coefficient is the plain sum of
  sample times cosine (or sine) of the angle, times a scale that is \<open>2 / (ntheta * nphi)\<close>,
  halved when \<open>ntheta\<close> is even and \<open>m = ntheta / 2\<close>, halved when \<open>nphi\<close> is even and
  \<open>|n| = nphi / 2\<close>, halved twice when both hold, and unchanged otherwise. This scale is the
  value of \<open>factor2\<close> that the loop body computes for the term.
\<close>

theorem to_Fourier_nyquist_halving:
  assumes "0 < ntheta" and "0 < nphi_conversion" and "nfp' \<noteq> 0"
    and "0 \<le> mpol" and "0 \<le> ntor"
    and "sampled_on R_2D ntheta nphi_conversion"
    and "sampled_on Z_2D ntheta nphi_conversion"
  shows "\<exists>A B C D.
           to_Fourier R_2D Z_2D nfp' ntheta mpol ntor True
             = Some (Arr A, Arr B, Arr C, Arr D) \<and>
           (\<forall>m n. 0 \<le> m \<and> m \<le> mpol \<and> (if m = 0 then 1 else - ntor) \<le> n \<and> n \<le> ntor \<longrightarrow>
              factor2 (2 / real_of_int (ntheta * int nphi_conversion)) ntheta nphi_conversion m n
                = nyquist_scale ntheta nphi_conversion m n \<and>
              A ! nat (n + ntor) ! nat m =
                nyquist_scale ntheta nphi_conversion m n
                * (\<Sum>j_phi<nphi_conversion. \<Sum>j_theta<nat ntheta.
                     R_2D ! j_theta ! j_phi
                     * cos (mode_angle nfp' ntheta nphi_conversion j_phi j_theta m n)) \<and>
              B ! nat (n + ntor) ! nat m =
                nyquist_scale ntheta nphi_conversion m n
                * (\<Sum>j_phi<nphi_conversion. \<Sum>j_theta<nat ntheta.
                     R_2D ! j_theta ! j_phi
                     * sin (mode_angle nfp' ntheta nphi_conversion j_phi j_theta m n)) \<and>
              C ! nat (n + ntor) ! nat m =
                nyquist_scale ntheta nphi_conversion m n
                * (\<Sum>j_phi<nphi_conversion. \<Sum>j_theta<nat ntheta.
                     Z_2D ! j_theta ! j_phi
                     * cos (mode_angle nfp' ntheta nphi_conversion j_phi j_theta m n)) \<and>
              D ! nat (n + ntor) ! nat m =
                nyquist_scale ntheta nphi_conversion m n
                * (\<Sum>j_phi<nphi_conversion. \<Sum>j_theta<nat ntheta.
                     Z_2D ! j_theta ! j_phi
                     * sin (mode_angle nfp' ntheta nphi_conversion j_phi j_theta m n)))"
proof -
  from to_Fourier_result [OF assms] obtain A B C D where
    run: "\<And>lasym'. to_Fourier R_2D Z_2D nfp' ntheta mpol ntor lasym'
             = Some (Arr A, if lasym' then Arr B else Scalar 0,
                     if lasym' then Arr C else Scalar 0, Arr D)" and
    vals: "\<And>m n. 0 \<le> m \<and> m \<le> mpol \<and> - ntor \<le> n \<and> n \<le> ntor \<Longrightarrow>
              A ! nat (n + ntor) ! nat m =
                (if m = 0 \<and> n = 0
                 then np_sum R_2D / real_of_int (ntheta * int nphi_conversion)
                 else if m = 0 \<and> n < 1 then 0 else
                 fourier_sum cos R_2D nfp' ntheta nphi_conversion m n) \<and>
              B ! nat (n + ntor) ! nat m =
                (if m = 0 \<and> n < 1 then 0 else
                 fourier_sum sin R_2D nfp' ntheta nphi_conversion m n) \<and>
              C ! nat (n + ntor) ! nat m =
                (if m = 0 \<and> n = 0
                 then np_sum Z_2D / real_of_int (ntheta * int nphi_conversion)
                 else if m = 0 \<and> n < 1 then 0 else
                 fourier_sum cos Z_2D nfp' ntheta nphi_conversion m n) \<and>
              D ! nat (n + ntor) ! nat m =
                (if m = 0 \<and> n < 1 then 0 else
                 fourier_sum sin Z_2D nfp' ntheta nphi_conversion m n)"
    by blast
  have acc: "A ! nat (n + ntor) ! nat m = fourier_sum cos R_2D nfp' ntheta nphi_conversion m n \<and>
             B ! nat (n + ntor) ! nat m = fourier_sum sin R_2D nfp' ntheta nphi_conversion m n \<and>
             C ! nat (n + ntor) ! nat m = fourier_sum cos Z_2D nfp' ntheta nphi_conversion m n \<and>
             D ! nat (n + ntor) ! nat m = fourier_sum sin Z_2D nfp' ntheta nphi_conversion m n"
    if mn: "0 \<le> m \<and> m \<le> mpol \<and> (if m = 0 then 1 else - ntor) \<le> n \<and> n \<le> ntor" for m n
  proof -
    have rng: "0 \<le> m \<and> m \<le> mpol \<and> - ntor \<le> n \<and> n \<le> ntor"
      using mn assms(5) by (auto split: if_splits)
    have c1: "(m = 0 \<and> n = 0) = False" and c2: "(m = 0 \<and> n < 1) = False"
      using mn by (auto split: if_splits)
    show ?thesis using vals [OF rng] unfolding c1 c2 if_False .
  qed
  have "to_Fourier R_2D Z_2D nfp' ntheta mpol ntor True = Some (Arr A, Arr B, Arr C, Arr D)"
    using run [of True] by simp
  then show ?thesis
    using acc unfolding fourier_sum_scale factor2_nyquist_scale by blast
qed

theorem to_Fourier_nyquist_halving_witness:
  "(0::int) < 2 \<and> (0::nat) < 2 \<and> (1::int) \<noteq> 0 \<and> (0::int) \<le> 1 \<and>
   sampled_on grid_R 2 2 \<and> sampled_on grid_Z 2 2 \<and>
   (\<exists>A B C D.
      to_Fourier grid_R grid_Z 1 2 1 1 True = Some (Arr A, Arr B, Arr C, Arr D) \<and>
      factor2 (2 / real_of_int (2 * int 2)) 2 2 1 1 = 1 / 8 \<and>
      factor2 (2 / real_of_int (2 * int 2)) 2 2 0 1 = 1 / 4 \<and>
      A ! 2 ! 1 =
        1 / 8 * (\<Sum>j_phi<2. \<Sum>j_theta<2.
                   grid_R ! j_theta ! j_phi * cos (mode_angle 1 2 2 j_phi j_theta 1 1)))"
proof -
  have h: "(0::int) < 2" "(0::nat) < 2" "(1::int) \<noteq> 0" "(0::int) \<le> 1" "(0::int) \<le> 1"
    by simp_all
  from to_Fourier_nyquist_halving [OF h grid_sampled] obtain A B C D where
    run: "to_Fourier grid_R grid_Z 1 2 1 1 True = Some (Arr A, Arr B, Arr C, Arr D)" and
    acc: "\<And>m n. 0 \<le> m \<and> m \<le> 1 \<and> (if m = 0 then 1 else - 1) \<le> n \<and> n \<le> 1 \<Longrightarrow>
            factor2 (2 / real_of_int (2 * int 2)) 2 2 m n = nyquist_scale 2 2 m n \<and>
            A ! nat (n + 1) ! nat m =
              nyquist_scale 2 2 m n
              * (\<Sum>j_phi<2. \<Sum>j_theta<nat 2.
                   grid_R ! j_theta ! j_phi * cos (mode_angle 1 2 2 j_phi j_theta m n))"
    by blast
  have "factor2 (2 / real_of_int (2 * int 2)) 2 2 1 1 = 1 / 8"
    using acc [of 1 1] by (simp add: nyquist_scale_def)
  moreover have "factor2 (2 / real_of_int (2 * int 2)) 2 2 0 1 = 1 / 4"
    using acc [of 0 1] by (simp add: nyquist_scale_def)
  moreover have "A ! 2 ! 1 =
        1 / 8 * (\<Sum>j_phi<2. \<Sum>j_theta<2.
                   grid_R ! j_theta ! j_phi * cos (mode_angle 1 2 2 j_phi j_theta 1 1))"
    using acc [of 1 1] by (simp add: nyquist_scale_def)
  ultimately show ?thesis using h grid_sampled run by blast
qed

text \<open>
  C4. For a stellarator-symmetric input (\<open>lasym = False\<close>), whatever the samples and the
  mode counts, a result of \<open>to_Fourier\<close> has the integer \<open>0\<close> as its sine-R spectrum and as
  its cosine-Z spectrum: the accumulated arrays are discarded. On a sample that covers the
  grid the function does return.
\<close>

theorem to_Fourier_symmetric_spectra_zero:
  "(case to_Fourier R_2D Z_2D nfp' ntheta mpol ntor False of
      None \<Rightarrow> True
    | Some (rbc, rbs, zbc, zbs) \<Rightarrow> rbs = Scalar 0 \<and> zbc = Scalar 0) \<and>
   (0 < ntheta \<and> 0 < nphi_conversion \<and> nfp' \<noteq> 0 \<and> 0 \<le> mpol \<and> 0 \<le> ntor \<and>
    sampled_on R_2D ntheta nphi_conversion \<and> sampled_on Z_2D ntheta nphi_conversion
    \<longrightarrow> to_Fourier R_2D Z_2D nfp' ntheta mpol ntor False \<noteq> None)"
proof (intro conjI impI)
  show "case to_Fourier R_2D Z_2D nfp' ntheta mpol ntor False of
          None \<Rightarrow> True
        | Some (rbc, rbs, zbc, zbs) \<Rightarrow> rbs = Scalar 0 \<and> zbc = Scalar 0"
  proof (cases "to_Fourier R_2D Z_2D nfp' ntheta mpol ntor False")
    case None
    then show ?thesis by simp
  next
    case (Some res)
    from to_Fourier_form [OF Some] show ?thesis using Some by auto
  qed
next
  assume wf: "0 < ntheta \<and> 0 < nphi_conversion \<and> nfp' \<noteq> 0 \<and> 0 \<le> mpol \<and> 0 \<le> ntor \<and>
    sampled_on R_2D ntheta nphi_conversion \<and> sampled_on Z_2D ntheta nphi_conversion"
  then have "\<exists>A B C D. \<forall>lasym'. to_Fourier R_2D Z_2D nfp' ntheta mpol ntor lasym'
             = Some (Arr A, if lasym' then Arr B else Scalar 0,
                     if lasym' then Arr C else Scalar 0, Arr D)"
    using to_Fourier_result [of ntheta nphi_conversion nfp' mpol ntor R_2D Z_2D] by blast
  then show "to_Fourier R_2D Z_2D nfp' ntheta mpol ntor False \<noteq> None" by auto
qed

theorem to_Fourier_symmetric_spectra_zero_witness:
  "(0::int) < 2 \<and> (0::nat) < 2 \<and> (1::int) \<noteq> 0 \<and> (0::int) \<le> 1 \<and>
   sampled_on grid_R 2 2 \<and> sampled_on grid_Z 2 2 \<and>
   (\<exists>rbc zbs. to_Fourier grid_R grid_Z 1 2 1 1 False = Some (rbc, Scalar 0, Scalar 0, zbs))"
proof -
  have h: "(0::int) < 2 \<and> (0::nat) < 2 \<and> (1::int) \<noteq> 0 \<and> (0::int) \<le> 1 \<and> (0::int) \<le> 1 \<and>
           sampled_on grid_R 2 2 \<and> sampled_on grid_Z 2 2"
    using grid_sampled by simp
  from to_Fourier_symmetric_spectra_zero [of grid_R grid_Z 1 2 1 1 2] h
  show ?thesis by (auto split: option.splits)
qed

text \<open>
  C5, as amended. On a sample that covers the grid, the entry \<open>[ntor, 0]\<close> of the cosine-R
  spectrum returned by \<open>to_Fourier\<close> is the sum of all entries of \<open>R_2D\<close> divided by
  \<open>ntheta * nphi\<close>, whatever \<open>mpol\<close> and \<open>ntor\<close> are and whatever the symmetry flag is. For
  an asymmetric input the entry \<open>[ntor, 0]\<close> of the cosine-Z spectrum is likewise the sum of
  all entries of \<open>Z_2D\<close> divided by \<open>ntheta * nphi\<close>; for a symmetric input the cosine-Z
  spectrum is the integer \<open>0\<close>.
\<close>

theorem to_Fourier_mean_mode:
  assumes "0 < ntheta" and "0 < nphi_conversion" and "nfp' \<noteq> 0"
    and "0 \<le> mpol" and "0 \<le> ntor"
    and "sampled_on R_2D ntheta nphi_conversion"
    and "sampled_on Z_2D ntheta nphi_conversion"
  shows "\<exists>A B C D.
           to_Fourier R_2D Z_2D nfp' ntheta mpol ntor True
             = Some (Arr A, Arr B, Arr C, Arr D) \<and>
           to_Fourier R_2D Z_2D nfp' ntheta mpol ntor False
             = Some (Arr A, Scalar 0, Scalar 0, Arr D) \<and>
           A ! nat ntor ! 0 = np_sum R_2D / real_of_int (ntheta * int nphi_conversion) \<and>
           C ! nat ntor ! 0 = np_sum Z_2D / real_of_int (ntheta * int nphi_conversion)"
proof -
  from to_Fourier_result [OF assms] obtain A B C D where
    run: "\<And>lasym'. to_Fourier R_2D Z_2D nfp' ntheta mpol ntor lasym'
             = Some (Arr A, if lasym' then Arr B else Scalar 0,
                     if lasym' then Arr C else Scalar 0, Arr D)" and
    vals: "\<And>m n. 0 \<le> m \<and> m \<le> mpol \<and> - ntor \<le> n \<and> n \<le> ntor \<Longrightarrow>
              A ! nat (n + ntor) ! nat m =
                (if m = 0 \<and> n = 0
                 then np_sum R_2D / real_of_int (ntheta * int nphi_conversion)
                 else if m = 0 \<and> n < 1 then 0 else
                 fourier_sum cos R_2D nfp' ntheta nphi_conversion m n) \<and>
              B ! nat (n + ntor) ! nat m =
                (if m = 0 \<and> n < 1 then 0 else
                 fourier_sum sin R_2D nfp' ntheta nphi_conversion m n) \<and>
              C ! nat (n + ntor) ! nat m =
                (if m = 0 \<and> n = 0
                 then np_sum Z_2D / real_of_int (ntheta * int nphi_conversion)
                 else if m = 0 \<and> n < 1 then 0 else
                 fourier_sum cos Z_2D nfp' ntheta nphi_conversion m n) \<and>
              D ! nat (n + ntor) ! nat m =
                (if m = 0 \<and> n < 1 then 0 else
                 fourier_sum sin Z_2D nfp' ntheta nphi_conversion m n)"
    by blast
  have rng: "(0::int) \<le> 0 \<and> 0 \<le> mpol \<and> - ntor \<le> 0 \<and> 0 \<le> ntor" using assms(4,5) by simp
  have "A ! nat ntor ! 0 = np_sum R_2D / real_of_int (ntheta * int nphi_conversion)"
    and "C ! nat ntor ! 0 = np_sum Z_2D / real_of_int (ntheta * int nphi_conversion)"
    using vals [OF rng] by simp_all
  then show ?thesis using run [of True] run [of False] by auto
qed

theorem to_Fourier_mean_mode_witness:
  "(0::int) < 2 \<and> (0::nat) < 2 \<and> (1::int) \<noteq> 0 \<and> (0::int) \<le> 1 \<and>
   sampled_on grid_R 2 2 \<and> sampled_on grid_Z 2 2 \<and>
   (\<exists>A B C D.
      to_Fourier grid_R grid_Z 1 2 1 1 True = Some (Arr A, Arr B, Arr C, Arr D) \<and>
      to_Fourier grid_R grid_Z 1 2 1 1 False = Some (Arr A, Scalar 0, Scalar 0, Arr D) \<and>
      A ! 1 ! 0 = 5 / 2 \<and> C ! 1 ! 0 = 0)"
proof -
  have h: "(0::int) < 2" "(0::nat) < 2" "(1::int) \<noteq> 0" "(0::int) \<le> 1" "(0::int) \<le> 1"
    by simp_all
  from to_Fourier_mean_mode [OF h grid_sampled] obtain A B C D where
    "to_Fourier grid_R grid_Z 1 2 1 1 True = Some (Arr A, Arr B, Arr C, Arr D)"
    "to_Fourier grid_R grid_Z 1 2 1 1 False = Some (Arr A, Scalar 0, Scalar 0, Arr D)"
    "A ! nat 1 ! 0 = np_sum grid_R / real_of_int (2 * int 2)"
    "C ! nat 1 ! 0 = np_sum grid_Z / real_of_int (2 * int 2)"
    by blast
  then show ?thesis
    using h grid_sampled by (auto simp: np_sum_def grid_R_def grid_Z_def)
qed

text \<open>
  C5 as stated, with the cosine-Z entry equal to the mean of \<open>Z_2D\<close> for every input, fails
  for a symmetric input: on the one-point sample \<open>R = 1\<close>, \<open>Z = 2\<close> the cosine-R spectrum
  holds the mean \<open>1\<close>, and the cosine-Z spectrum is the integer \<open>0\<close> while the mean of \<open>Z_2D\<close>
  is \<open>2\<close>.
\<close>

theorem to_Fourier_symmetric_mean_of_Z_dropped:
  "to_Fourier [[1]] [[2]] 1 1 0 0 False = Some (Arr [[1]], Scalar 0, Scalar 0, Arr [[0]]) \<and>
   np_sum [[2]] / real_of_int (1 * int 1) = 2"
  by (simp add: to_Fourier_def to_Fourier_loops_def shape1_def linspace_def py_div_def
      zeros_def set2_def index_def np_sum_def Let_def)



section \<open>Properties of the file writer\<close>

lemma for_loop_append:
  assumes "\<And>x out. x \<in> set xs \<Longrightarrow> body x out = map_option ((@) out) (g x)"
  shows "for_loop xs body out = map_option ((@) out) (collect g xs)"
  using assms
proof (induction xs arbitrary: out)
  case Nil
  show ?case by simp
next
  case (Cons x xs)
  have b: "body x out = map_option ((@) out) (g x)" using Cons.prems by simp
  have ih: "for_loop xs body out' = map_option ((@) out') (collect g xs)" for out'
    using Cons by simp
  show ?case by (cases "g x"; cases "collect g xs") (simp_all add: b ih)
qed

lemma map_option_append_Nil: "map_option ((@) []) x = x"
  by (cases x) simp_all

lemma collect_Some_iff:
  "collect g xs = Some out \<Longrightarrow>
   l \<in> set out \<longleftrightarrow> (\<exists>x \<in> set xs. \<exists>ls. g x = Some ls \<and> l \<in> set ls)"
  by (induction xs arbitrary: out) (auto split: Option.bind_splits)

lemma collect_Some_defined:
  "collect g xs = Some out \<Longrightarrow> x \<in> set xs \<Longrightarrow> \<exists>ls. g x = Some ls"
  by (induction xs arbitrary: out) (auto split: Option.bind_splits)

lemma boundary_lines_collect:
  "boundary_lines lasym' mpol ntor RBC' RBS' ZBC' ZBS' =
     collect (\<lambda>m. collect (mode_lines lasym' ntor RBC' RBS' ZBC' ZBS' m) [- ntor..ntor])
             [0..mpol]"
proof -
  have inner:
    "for_loop [- ntor..ntor] (\<lambda>n out. do {
         rbc \<leftarrow> entry RBC' (n + ntor) m;
         zbs \<leftarrow> entry ZBS' (n + ntor) m;
         if rbc \<noteq> 0 \<or> zbs \<noteq> 0 then do {
           let out = out @ [Line_RBC_ZBS n m rbc zbs];
           if lasym' then do {
             rbs \<leftarrow> entry RBS' (n + ntor) m;
             zbc \<leftarrow> entry ZBC' (n + ntor) m;
             Some (out @ [Line_RBS_ZBC n m rbs zbc])
           } else Some out
         } else Some out
       }) out
     = map_option ((@) out) (collect (mode_lines lasym' ntor RBC' RBS' ZBC' ZBS' m) [- ntor..ntor])"
    for m out
    by (rule for_loop_append) (auto simp: mode_lines_def Let_def split: Option.bind_split)
  show ?thesis
    unfolding boundary_lines_def add_diff_cancel_right' inner
    by (simp add: for_loop_append
        [where g = "\<lambda>m. collect (mode_lines lasym' ntor RBC' RBS' ZBC' ZBS' m) [- ntor..ntor]"]
        map_option_append_Nil)
qed

lemma mode_lines_RBC_ZBS:
  "mode_lines lasym' ntor RBC' RBS' ZBC' ZBS' m' n' = Some ls \<Longrightarrow>
   Line_RBC_ZBS n m a b \<in> set ls \<longleftrightarrow>
     n' = n \<and> m' = m \<and> entry RBC' (n + ntor) m = Some a \<and> entry ZBS' (n + ntor) m = Some b \<and>
     (a \<noteq> 0 \<or> b \<noteq> 0)"
  by (auto simp: mode_lines_def split: Option.bind_splits if_splits)

lemma mode_lines_RBS_ZBC:
  "mode_lines lasym' ntor RBC' RBS' ZBC' ZBS' m' n' = Some ls \<Longrightarrow>
   Line_RBS_ZBC n m a b \<in> set ls \<longleftrightarrow>
     n' = n \<and> m' = m \<and> lasym' \<and>
     entry RBS' (n + ntor) m = Some a \<and> entry ZBC' (n + ntor) m = Some b \<and>
     (\<exists>a' b'. entry RBC' (n + ntor) m = Some a' \<and> entry ZBS' (n + ntor) m = Some b' \<and>
              (a' \<noteq> 0 \<or> b' \<noteq> 0))"
  by (auto simp: mode_lines_def split: Option.bind_splits if_splits)

lemma boundary_lines_mem:
  assumes run: "boundary_lines lasym' mpol ntor RBC' RBS' ZBC' ZBS' = Some out"
    and one: "\<And>m' n' ls. mode_lines lasym' ntor RBC' RBS' ZBC' ZBS' m' n' = Some ls \<Longrightarrow>
                l \<in> set ls \<longleftrightarrow> n' = n \<and> m' = m \<and> P"
  shows "l \<in> set out \<longleftrightarrow> 0 \<le> m \<and> m \<le> mpol \<and> - ntor \<le> n \<and> n \<le> ntor \<and> P"
proof -
  let ?f = "mode_lines lasym' ntor RBC' RBS' ZBC' ZBS'"
  let ?g = "\<lambda>m. collect (?f m) [- ntor..ntor]"
  have c: "collect ?g [0..mpol] = Some out" using run by (simp add: boundary_lines_collect)
  show ?thesis
  proof
    assume "l \<in> set out"
    then obtain m' ls where m': "m' \<in> set [0..mpol]" and ls: "?g m' = Some ls" and "l \<in> set ls"
      using collect_Some_iff [OF c] by blast
    then obtain n' ls' where n': "n' \<in> set [- ntor..ntor]" and ls': "?f m' n' = Some ls'"
      and "l \<in> set ls'"
      using collect_Some_iff [OF ls] by blast
    then have "n' = n \<and> m' = m \<and> P" using one [OF ls'] by simp
    then show "0 \<le> m \<and> m \<le> mpol \<and> - ntor \<le> n \<and> n \<le> ntor \<and> P" using m' n' by simp
  next
    assume r: "0 \<le> m \<and> m \<le> mpol \<and> - ntor \<le> n \<and> n \<le> ntor \<and> P"
    then have m: "m \<in> set [0..mpol]" and n: "n \<in> set [- ntor..ntor]" by simp_all
    obtain ls where ls: "?g m = Some ls" using collect_Some_defined [OF c m] by blast
    obtain ls' where ls': "?f m n = Some ls'" using collect_Some_defined [OF ls n] by blast
    have "l \<in> set ls'" using one [OF ls'] r by simp
    then have "l \<in> set ls" using collect_Some_iff [OF ls] ls' n by blast
    then show "l \<in> set out" using collect_Some_iff [OF c] ls m by blast
  qed
qed

lemma to_vmec_SomeD:
  assumes "to_vmec Frenet_to_cylindrical self r params ntheta ntorMax = Some (file, self')"
  shows "\<exists>mpol ntor R_2D Z_2D phi0_2D RBC' RBS' ZBC' ZBS' rbc_t zbs_t.
           mpol_value params ntheta = Some mpol \<and> ntor_value self params = Some ntor \<and>
           Frenet_to_cylindrical self r ntheta = Some (R_2D, Z_2D, phi0_2D) \<and>
           to_Fourier R_2D Z_2D (nfp self) ntheta mpol ntor (lasym self)
             = Some (RBC', RBS', ZBC', ZBS') \<and>
           boundary_lines (lasym self) mpol ntor RBC' RBS' ZBC' ZBS' = Some (boundary file) \<and>
           MPOL file = mpol \<and> NTOR file = min ntor ntorMax \<and>
           LASYM file = lasym self \<and> NFP file = nfp self \<and>
           transpose_spectrum RBC' = Some rbc_t \<and> transpose_spectrum ZBS' = Some zbs_t \<and>
           RBC self' = Some rbc_t \<and> ZBS self' = Some zbs_t \<and>
           (if lasym self
            then \<exists>rbs_t zbc_t. transpose_spectrum RBS' = Some rbs_t \<and>
                   transpose_spectrum ZBC' = Some zbc_t \<and>
                   RBS self' = Some rbs_t \<and> ZBC self' = Some zbc_t
            else RBS self' = Some RBS' \<and> ZBC self' = Some ZBC')"
  using assms unfolding to_vmec_def Let_def
  by (auto split: Option.bind_splits prod.splits if_splits)

lemma py_int_min_le: "py_int (min x 100) \<le> 100"
proof (cases "0 \<le> min x 100")
  case True
  have "\<lfloor>min x 100\<rfloor> \<le> \<lfloor>100::real\<rfloor>" by (rule floor_mono) simp
  then show ?thesis using True by (simp add: py_int_def)
next
  case False
  then have "\<lceil>min x 100\<rceil> \<le> 0" by (simp add: ceiling_le_iff)
  then show ?thesis using False by (simp add: py_int_def)
qed

lemmas run_defs =
  to_vmec_def mpol_value_def ntor_value_def int_of_param_def py_int_def
  with_defaults_def set_default_def outboard_points_def lowest_modes_def
  circular_asym_def circular_def
  to_Fourier_def to_Fourier_loops_def shape1_def linspace_def py_div_def zeros_def
  set2_def index_def np_sum_def Let_def
  boundary_lines_def entry_def get2_def transpose_spectrum_def

lemma to_vmec_symmetric_run:
  "to_vmec outboard_points circular (1 / 10) lowest_modes 1 14 =
     Some (\<lparr> DELT = PNum (9 / 10), NSTEP = PNum 200, TCON0 = PNum 2,
              NS_ARRAY = PList [16, 49, 101],
              FTOL_ARRAY = PList [1 / 10 ^ 13, 1 / 10 ^ 12, 1 / 10 ^ 11],
              NITER_ARRAY = PList [1000, 1000, 1500],
              LASYM = False, NFP = 3, MPOL = 0, NTOR = 0,
              boundary = [Line_RBC_ZBS 0 0 (11 / 10) 0] \<rparr>,
           circular\<lparr> RBC := Some (Arr [[11 / 10]]), ZBS := Some (Arr [[0]]),
                     RBS := Some (Scalar 0), ZBC := Some (Scalar 0) \<rparr>)"
  by (simp add: run_defs)

lemma to_vmec_asymmetric_run:
  "to_vmec outboard_points circular_asym (1 / 10) lowest_modes 1 14 =
     Some (\<lparr> DELT = PNum (9 / 10), NSTEP = PNum 200, TCON0 = PNum 2,
              NS_ARRAY = PList [16, 49, 101],
              FTOL_ARRAY = PList [1 / 10 ^ 13, 1 / 10 ^ 12, 1 / 10 ^ 11],
              NITER_ARRAY = PList [1000, 1000, 1500],
              LASYM = True, NFP = 3, MPOL = 0, NTOR = 0,
              boundary = [Line_RBC_ZBS 0 0 (11 / 10) 0, Line_RBS_ZBC 0 0 0 0] \<rparr>,
           circular_asym\<lparr> RBC := Some (Arr [[11 / 10]]), ZBS := Some (Arr [[0]]),
                          RBS := Some (Arr [[0]]), ZBC := Some (Arr [[0]]) \<rparr>)"
  by (simp add: run_defs)

text \<open>
  C8, as amended. When \<open>mpol\<close> is not a key of \<open>params\<close>, the poloidal mode count is
  \<open>floor (min (ntheta / 2) 100)\<close> and never fails; when \<open>ntor\<close> is not a key, the toroidal mode
  count is \<open>int (min (nphi / 2 + 1) 100)\<close>. Both defaults are at most 100. A number supplied
  under the key \<open>mpol\<close> or \<open>ntor\<close> is used as it is, truncated to an integer. The file holds
  \<open>MPOL = mpol\<close> and \<open>NTOR = min ntor ntorMax\<close>, so that with the default \<open>ntor\<close> the written
  \<open>NTOR\<close> is at most 100.
\<close>

theorem to_vmec_mode_counts:
  "(''mpol'' \<notin> dom params \<longrightarrow>
      mpol_value params ntheta = Some \<lfloor>min (real_of_int ntheta / 2) 100\<rfloor> \<and>
      \<lfloor>min (real_of_int ntheta / 2) 100\<rfloor> \<le> 100) \<and>
   (''ntor'' \<notin> dom params \<longrightarrow>
      ntor_value self params = Some (py_int (min (real_of_int (nphi self) / 2 + 1) 100)) \<and>
      py_int (min (real_of_int (nphi self) / 2 + 1) 100) \<le> 100) \<and>
   (params ''mpol'' = Some (PNum v) \<longrightarrow> mpol_value params ntheta = Some (py_int v)) \<and>
   (params ''ntor'' = Some (PNum w) \<longrightarrow> ntor_value self params = Some (py_int w)) \<and>
   (to_vmec Frenet_to_cylindrical self r params ntheta ntorMax = Some (file, self') \<longrightarrow>
      mpol_value params ntheta = Some (MPOL file) \<and>
      (\<exists>ntor. ntor_value self params = Some ntor \<and> NTOR file = min ntor ntorMax) \<and>
      (''ntor'' \<notin> dom params \<longrightarrow> NTOR file \<le> 100))"
proof (intro conjI impI)
  assume "''mpol'' \<notin> dom params"
  then show "mpol_value params ntheta = Some \<lfloor>min (real_of_int ntheta / 2) 100\<rfloor>"
    by (simp add: mpol_value_def)
next
  have "\<lfloor>min (real_of_int ntheta / 2) 100\<rfloor> \<le> \<lfloor>100::real\<rfloor>" by (rule floor_mono) simp
  then show "\<lfloor>min (real_of_int ntheta / 2) 100\<rfloor> \<le> 100" by simp
next
  assume "''ntor'' \<notin> dom params"
  then show "ntor_value self params = Some (py_int (min (real_of_int (nphi self) / 2 + 1) 100))"
    by (simp add: ntor_value_def)
next
  show "py_int (min (real_of_int (nphi self) / 2 + 1) 100) \<le> 100" by (rule py_int_min_le)
next
  assume "params ''mpol'' = Some (PNum v)"
  then show "mpol_value params ntheta = Some (py_int v)"
    by (auto simp: mpol_value_def int_of_param_def)
next
  assume "params ''ntor'' = Some (PNum w)"
  then show "ntor_value self params = Some (py_int w)"
    by (auto simp: ntor_value_def int_of_param_def)
next
  assume run: "to_vmec Frenet_to_cylindrical self r params ntheta ntorMax = Some (file, self')"
  from to_vmec_SomeD [OF run] obtain mpol ntor where
    m: "mpol_value params ntheta = Some mpol" and n: "ntor_value self params = Some ntor" and
    f: "MPOL file = mpol" "NTOR file = min ntor ntorMax"
    by blast
  show "mpol_value params ntheta = Some (MPOL file)" using m f by simp
  show "\<exists>ntor. ntor_value self params = Some ntor \<and> NTOR file = min ntor ntorMax"
    using n f by blast
  show "NTOR file \<le> 100" if "''ntor'' \<notin> dom params"
  proof -
    have "ntor = py_int (min (real_of_int (nphi self) / 2 + 1) 100)"
      using that n by (simp add: ntor_value_def)
    then have "ntor \<le> 100" using py_int_min_le by simp
    then show ?thesis using f by simp
  qed
qed

theorem to_vmec_mode_counts_witness:
  "''mpol'' \<notin> dom (Map.empty :: string \<rightharpoonup> param) \<and>
   ''ntor'' \<notin> dom (Map.empty :: string \<rightharpoonup> param) \<and>
   mpol_value Map.empty 20 = Some 10 \<and> ntor_value circular Map.empty = Some 3 \<and>
   lowest_modes ''mpol'' = Some (PNum 0) \<and> lowest_modes ''ntor'' = Some (PNum 0) \<and>
   (\<exists>file self'.
      to_vmec outboard_points circular (1 / 10) lowest_modes 1 14 = Some (file, self') \<and>
      mpol_value lowest_modes 1 = Some (MPOL file) \<and> MPOL file = 0 \<and> NTOR file = 0)"
proof -
  note run = to_vmec_symmetric_run
  have d: "mpol_value Map.empty 20 = Some 10 \<and> ntor_value circular Map.empty = Some 3"
    using to_vmec_mode_counts [of Map.empty 20 circular]
    by (simp add: py_int_def circular_def)
  have e: "lowest_modes ''mpol'' = Some (PNum 0)" "lowest_modes ''ntor'' = Some (PNum 0)"
    by (simp_all add: lowest_modes_def)
  have "mpol_value lowest_modes 1 = Some 0"
    using to_vmec_mode_counts [of lowest_modes 1 circular 0 0 outboard_points "1 / 10" 14,
        unfolded run] e
    by (simp add: py_int_def)
  then show ?thesis using d e run by simp
qed

text \<open>
  C8 as stated, with explicit values clamped as the defaults are, fails: \<open>mpol = 150\<close> and
  \<open>ntor = 150\<close> supplied in \<open>params\<close> are used as they are.
\<close>

theorem explicit_mode_counts_not_clamped:
  "mpol_value [''mpol'' \<mapsto> PNum 150] 20 = Some 150 \<and>
   ntor_value circular [''ntor'' \<mapsto> PNum 150] = Some 150"
  by (simp add: mpol_value_def ntor_value_def int_of_param_def py_int_def)

text \<open>
  C9, as amended. In a file that \<open>to_vmec\<close> has written, the record \<open>RBC(n,m), ZBS(n,m)\<close>
  of a mode with \<open>m\<close> in \<open>[0, mpol]\<close> and \<open>n\<close> in \<open>[-ntor, ntor]\<close> is present exactly when one of
  the two coefficients is not zero, and it holds both coefficients; no such record holds two
  zeros. A record \<open>RBS(n,m), ZBC(n,m)\<close> is present exactly when the configuration is not
  stellarator-symmetric and the record \<open>RBC(n,m), ZBS(n,m)\<close> of the mode is present. The
  coefficients are the entries at \<open>[n + ntor, m]\<close> of the spectra that \<open>to_Fourier\<close> returned.
\<close>

theorem to_vmec_boundary_records:
  assumes "to_vmec Frenet_to_cylindrical self r params ntheta ntorMax = Some (file, self')"
  shows "\<exists>mpol ntor R_2D Z_2D phi0_2D RBC' RBS' ZBC' ZBS'.
           mpol_value params ntheta = Some mpol \<and> ntor_value self params = Some ntor \<and>
           Frenet_to_cylindrical self r ntheta = Some (R_2D, Z_2D, phi0_2D) \<and>
           to_Fourier R_2D Z_2D (nfp self) ntheta mpol ntor (lasym self)
             = Some (RBC', RBS', ZBC', ZBS') \<and>
           (\<forall>n m a b.
              Line_RBC_ZBS n m a b \<in> set (boundary file) \<longleftrightarrow>
                0 \<le> m \<and> m \<le> mpol \<and> - ntor \<le> n \<and> n \<le> ntor \<and>
                entry RBC' (n + ntor) m = Some a \<and> entry ZBS' (n + ntor) m = Some b \<and>
                (a \<noteq> 0 \<or> b \<noteq> 0)) \<and>
           (\<forall>n m a b.
              Line_RBS_ZBC n m a b \<in> set (boundary file) \<longleftrightarrow>
                0 \<le> m \<and> m \<le> mpol \<and> - ntor \<le> n \<and> n \<le> ntor \<and> lasym self \<and>
                entry RBS' (n + ntor) m = Some a \<and> entry ZBC' (n + ntor) m = Some b \<and>
                (\<exists>a' b'. entry RBC' (n + ntor) m = Some a' \<and>
                         entry ZBS' (n + ntor) m = Some b' \<and> (a' \<noteq> 0 \<or> b' \<noteq> 0)))"
proof -
  from to_vmec_SomeD [OF assms] obtain mpol ntor R_2D Z_2D phi0_2D RBC' RBS' ZBC' ZBS' where
    m: "mpol_value params ntheta = Some mpol" and n: "ntor_value self params = Some ntor" and
    F: "Frenet_to_cylindrical self r ntheta = Some (R_2D, Z_2D, phi0_2D)" and
    tf: "to_Fourier R_2D Z_2D (nfp self) ntheta mpol ntor (lasym self)
           = Some (RBC', RBS', ZBC', ZBS')" and
    bl: "boundary_lines (lasym self) mpol ntor RBC' RBS' ZBC' ZBS' = Some (boundary file)"
    by blast
  have l1: "Line_RBC_ZBS n m a b \<in> set (boundary file) \<longleftrightarrow>
                0 \<le> m \<and> m \<le> mpol \<and> - ntor \<le> n \<and> n \<le> ntor \<and>
                entry RBC' (n + ntor) m = Some a \<and> entry ZBS' (n + ntor) m = Some b \<and>
                (a \<noteq> 0 \<or> b \<noteq> 0)" for n m a b
    by (rule boundary_lines_mem [OF bl]) (rule mode_lines_RBC_ZBS)
  have l2: "Line_RBS_ZBC n m a b \<in> set (boundary file) \<longleftrightarrow>
                0 \<le> m \<and> m \<le> mpol \<and> - ntor \<le> n \<and> n \<le> ntor \<and> lasym self \<and>
                entry RBS' (n + ntor) m = Some a \<and> entry ZBC' (n + ntor) m = Some b \<and>
                (\<exists>a' b'. entry RBC' (n + ntor) m = Some a' \<and>
                         entry ZBS' (n + ntor) m = Some b' \<and> (a' \<noteq> 0 \<or> b' \<noteq> 0))" for n m a b
    by (rule boundary_lines_mem [OF bl]) (rule mode_lines_RBS_ZBC)
  show ?thesis using m n F tf l1 l2 by blast
qed

theorem to_vmec_boundary_records_witness:
  "\<exists>file self'.
     to_vmec outboard_points circular_asym (1 / 10) lowest_modes 1 14 = Some (file, self') \<and>
     Line_RBC_ZBS 0 0 (11 / 10) 0 \<in> set (boundary file) \<and>
     (\<forall>n m. Line_RBC_ZBS n m 0 0 \<notin> set (boundary file))"
proof -
  note run = to_vmec_asymmetric_run
  from to_vmec_boundary_records [OF run]
  have "\<forall>n m. Line_RBC_ZBS n m 0 0 \<notin> set (boundary (fst (the
          (to_vmec outboard_points circular_asym (1 / 10) lowest_modes 1 14))))"
    unfolding run by simp
  then show ?thesis unfolding run by simp
qed

text \<open>
  C9 as stated, with no record holding a coefficient that is exactly zero, fails. For the
  circular surface sampled at \<open>theta = 0\<close> with \<open>mpol = ntor = 0\<close>, the file of the symmetric
  configuration holds the record \<open>RBC(0,0) = 11/10, ZBS(0,0) = 0\<close>, and the file of the
  asymmetric configuration holds after it the record \<open>RBS(0,0) = 0, ZBC(0,0) = 0\<close>.
\<close>

theorem boundary_record_with_zero_coefficient:
  "map_option (boundary \<circ> fst) (to_vmec outboard_points circular (1 / 10) lowest_modes 1 14)
     = Some [Line_RBC_ZBS 0 0 (11 / 10) 0] \<and>
   map_option (boundary \<circ> fst) (to_vmec outboard_points circular_asym (1 / 10) lowest_modes 1 14)
     = Some [Line_RBC_ZBS 0 0 (11 / 10) 0, Line_RBS_ZBC 0 0 0 0]"
  by (simp add: to_vmec_symmetric_run to_vmec_asymmetric_run)

text \<open>
  C10. Whenever \<open>to_vmec\<close> returns, the spectra that \<open>to_Fourier\<close> gave it are two arrays for
  cosine-R and sine-Z, and for sine-R and cosine-Z two arrays if the configuration is not
  stellarator-symmetric and the integer \<open>0\<close> twice if it is. \<open>to_vmec\<close> stores the
  transposed arrays as \<open>RBC\<close> and \<open>ZBS\<close>; as \<open>RBS\<close> and \<open>ZBC\<close> it stores the transposed arrays
  in the asymmetric case and the integer \<open>0\<close>, not transposed, in the symmetric case.
\<close>

theorem to_vmec_stored_spectra:
  assumes "to_vmec Frenet_to_cylindrical self r params ntheta ntorMax = Some (file, self')"
  shows "\<exists>mpol ntor R_2D Z_2D phi0_2D A B C D.
           mpol_value params ntheta = Some mpol \<and> ntor_value self params = Some ntor \<and>
           Frenet_to_cylindrical self r ntheta = Some (R_2D, Z_2D, phi0_2D) \<and>
           to_Fourier R_2D Z_2D (nfp self) ntheta mpol ntor (lasym self)
             = Some (Arr A, if lasym self then Arr B else Scalar 0,
                     if lasym self then Arr C else Scalar 0, Arr D) \<and>
           RBC self' = Some (Arr (transpose A)) \<and>
           ZBS self' = Some (Arr (transpose D)) \<and>
           RBS self' = Some (if lasym self then Arr (transpose B) else Scalar 0) \<and>
           ZBC self' = Some (if lasym self then Arr (transpose C) else Scalar 0)"
proof -
  from to_vmec_SomeD [OF assms]
  obtain mpol ntor R_2D Z_2D phi0_2D RBC' RBS' ZBC' ZBS' rbc_t zbs_t where
    m: "mpol_value params ntheta = Some mpol" and n: "ntor_value self params = Some ntor" and
    F: "Frenet_to_cylindrical self r ntheta = Some (R_2D, Z_2D, phi0_2D)" and
    tf: "to_Fourier R_2D Z_2D (nfp self) ntheta mpol ntor (lasym self)
           = Some (RBC', RBS', ZBC', ZBS')" and
    t: "transpose_spectrum RBC' = Some rbc_t" "transpose_spectrum ZBS' = Some zbs_t"
       "RBC self' = Some rbc_t" "ZBS self' = Some zbs_t" and
    s: "if lasym self
        then \<exists>rbs_t zbc_t. transpose_spectrum RBS' = Some rbs_t \<and>
               transpose_spectrum ZBC' = Some zbc_t \<and>
               RBS self' = Some rbs_t \<and> ZBC self' = Some zbc_t
        else RBS self' = Some RBS' \<and> ZBC self' = Some ZBC'"
    by blast
  from to_Fourier_form [OF tf] obtain A B C D where
    form: "RBC' = Arr A" "RBS' = (if lasym self then Arr B else Scalar 0)"
          "ZBC' = (if lasym self then Arr C else Scalar 0)" "ZBS' = Arr D"
    by auto
  have "RBC self' = Some (Arr (transpose A))" "ZBS self' = Some (Arr (transpose D))"
    using t form by (simp_all add: transpose_spectrum_def)
  moreover have "RBS self' = Some (if lasym self then Arr (transpose B) else Scalar 0)"
    "ZBC self' = Some (if lasym self then Arr (transpose C) else Scalar 0)"
    using s form by (auto simp: transpose_spectrum_def split: if_splits)
  ultimately show ?thesis using m n F tf form by blast
qed

theorem to_vmec_stored_spectra_witness:
  "(\<exists>file self'.
      to_vmec outboard_points circular (1 / 10) lowest_modes 1 14 = Some (file, self') \<and>
      \<not> lasym circular \<and>
      RBC self' = Some (Arr (transpose [[11 / 10]])) \<and> ZBS self' = Some (Arr (transpose [[0]])) \<and>
      RBS self' = Some (Scalar 0) \<and> ZBC self' = Some (Scalar 0)) \<and>
   (\<exists>file self'.
      to_vmec outboard_points circular_asym (1 / 10) lowest_modes 1 14 = Some (file, self') \<and>
      lasym circular_asym \<and>
      (\<exists>A B C D. RBC self' = Some (Arr (transpose A)) \<and> ZBS self' = Some (Arr (transpose D)) \<and>
         RBS self' = Some (Arr (transpose B)) \<and> ZBC self' = Some (Arr (transpose C))))"
proof -
  note sym = to_vmec_symmetric_run and asym = to_vmec_asymmetric_run
  have l: "lasym circular = False" "lasym circular_asym = True"
    by (simp_all add: circular_asym_def circular_def)
  from to_vmec_stored_spectra [OF asym]
  have "\<exists>A B C D.
          RBC (snd (the (to_vmec outboard_points circular_asym (1 / 10) lowest_modes 1 14)))
            = Some (Arr (transpose A)) \<and>
          ZBS (snd (the (to_vmec outboard_points circular_asym (1 / 10) lowest_modes 1 14)))
            = Some (Arr (transpose D)) \<and>
          RBS (snd (the (to_vmec outboard_points circular_asym (1 / 10) lowest_modes 1 14)))
            = Some (Arr (transpose B)) \<and>
          ZBC (snd (the (to_vmec outboard_points circular_asym (1 / 10) lowest_modes 1 14)))
            = Some (Arr (transpose C))"
    unfolding asym l by (simp only: option.sel snd_conv if_True) blast
  then show ?thesis unfolding sym asym l by simp
qed

end
